theory Spec2Isabelle
  imports Complex_Main "HOL-Library.Word"
begin

unbundle bit_operations_syntax

section \<open>Vocabulary of the Vulkan and GLFW interfaces\<close>

text \<open>
  The library \<^verbatim>\<open>knm_vulkan_tools.hpp\<close> sequences calls into Vulkan and GLFW. Both are
  outside the repository. What a call returns is an input of the model; that a call is
  made is recorded in a call log (the field \<open>calls\<close> of the application state), so that
  statements such as "submit is not called" can be read off the log.
\<close>

type_synonym uint32_t = "32 word"
type_synonym VkBool32 = "32 word"

text \<open>
  The result codes the three calls of the frame cycle are documented to return, by name;
  any other value of the enumeration is \<open>VK_RESULT_OTHER\<close> with its number. The other
  enumerations below are treated the same way.
\<close>

datatype VkResult =
    VK_SUCCESS
  | VK_NOT_READY
  | VK_TIMEOUT
  | VK_SUBOPTIMAL_KHR
  | VK_ERROR_OUT_OF_HOST_MEMORY
  | VK_ERROR_OUT_OF_DEVICE_MEMORY
  | VK_ERROR_DEVICE_LOST
  | VK_ERROR_SURFACE_LOST_KHR
  | VK_ERROR_OUT_OF_DATE_KHR
  | VK_ERROR_FULL_SCREEN_EXCLUSIVE_MODE_LOST_EXT
  | VK_RESULT_OTHER int

text \<open>The two exception classes the library throws, with their messages.\<close>

datatype exn = runtime_error string | invalid_argument string

text \<open>
  How a \<^verbatim>\<open>void\<close> method ends: it returns; it throws; it never returns from a fence wait
  (the timeout is \<^verbatim>\<open>UINT64_MAX\<close> and nobody signals the fence); it never leaves the
  loop in which \<^verbatim>\<open>recreateSwapChain\<close> waits for a minimised window to get a size; or it
  leaves defined behaviour (an out-of-range \<^verbatim>\<open>operator[]\<close>, a null handle passed to
  Vulkan).
\<close>

datatype status = Returned | Thrown exn | Blocked | Spinning | Undefined

text \<open>
  A fence handle together with the state of the fence it names. \<open>Pending\<close> is an
  unsignaled fence that was handed to a successful \<^verbatim>\<open>vkQueueSubmit\<close>: the device
  signals it when the batch completes. \<open>Unsignaled\<close> is an unsignaled fence that no
  submitted batch refers to.
\<close>

datatype VkFence = NullFence | Signaled | Pending | Unsignaled

datatype VkSemaphore = NullSemaphore | Semaphore

datatype VkFormat =
    VK_FORMAT_UNDEFINED
  | VK_FORMAT_R8G8B8A8_UNORM
  | VK_FORMAT_R8G8B8A8_SRGB
  | VK_FORMAT_B8G8R8A8_UNORM
  | VK_FORMAT_B8G8R8A8_SRGB
  | VK_FORMAT_OTHER int

datatype VkColorSpaceKHR =
    VK_COLOR_SPACE_SRGB_NONLINEAR_KHR
  | VK_COLOR_SPACE_DISPLAY_P3_NONLINEAR_EXT
  | VK_COLOR_SPACE_EXTENDED_SRGB_LINEAR_EXT
  | VK_COLOR_SPACE_OTHER int

datatype VkPresentModeKHR =
    VK_PRESENT_MODE_IMMEDIATE_KHR
  | VK_PRESENT_MODE_MAILBOX_KHR
  | VK_PRESENT_MODE_FIFO_KHR
  | VK_PRESENT_MODE_FIFO_RELAXED_KHR
  | VK_PRESENT_MODE_OTHER int

datatype VkImageLayout =
    VK_IMAGE_LAYOUT_UNDEFINED
  | VK_IMAGE_LAYOUT_GENERAL
  | VK_IMAGE_LAYOUT_COLOR_ATTACHMENT_OPTIMAL
  | VK_IMAGE_LAYOUT_DEPTH_STENCIL_ATTACHMENT_OPTIMAL
  | VK_IMAGE_LAYOUT_DEPTH_STENCIL_READ_ONLY_OPTIMAL
  | VK_IMAGE_LAYOUT_SHADER_READ_ONLY_OPTIMAL
  | VK_IMAGE_LAYOUT_TRANSFER_SRC_OPTIMAL
  | VK_IMAGE_LAYOUT_TRANSFER_DST_OPTIMAL
  | VK_IMAGE_LAYOUT_PREINITIALIZED
  | VK_IMAGE_LAYOUT_PRESENT_SRC_KHR
  | VK_IMAGE_LAYOUT_OTHER int

record VkSurfaceFormatKHR =
  format :: VkFormat
  colorSpace :: VkColorSpaceKHR

record VkExtent2D =
  width :: uint32_t
  height :: uint32_t

record VkSurfaceCapabilitiesKHR =
  minImageCount :: uint32_t
  maxImageCount :: uint32_t
  currentExtent :: VkExtent2D
  minImageExtent :: VkExtent2D
  maxImageExtent :: VkExtent2D

text \<open>Constants of \<^verbatim>\<open>vulkan_core.h\<close>, with the values the header gives them.\<close>

definition VK_API_VERSION_1_0 :: uint32_t where "VK_API_VERSION_1_0 = 4194304"
definition VK_API_VERSION_1_1 :: uint32_t where "VK_API_VERSION_1_1 = 4198400"
definition VK_API_VERSION_1_2 :: uint32_t where "VK_API_VERSION_1_2 = 4202496"
definition VK_API_VERSION_1_3 :: uint32_t where "VK_API_VERSION_1_3 = 4206592"

definition VK_QUEUE_GRAPHICS_BIT :: uint32_t where "VK_QUEUE_GRAPHICS_BIT = 1"
definition VK_QUEUE_FAMILY_IGNORED :: uint32_t where "VK_QUEUE_FAMILY_IGNORED = - 1"
definition VK_IMAGE_ASPECT_COLOR_BIT :: uint32_t where "VK_IMAGE_ASPECT_COLOR_BIT = 1"
definition VK_ACCESS_SHADER_READ_BIT :: uint32_t where "VK_ACCESS_SHADER_READ_BIT = 32"
definition VK_ACCESS_TRANSFER_WRITE_BIT :: uint32_t where "VK_ACCESS_TRANSFER_WRITE_BIT = 4096"
definition VK_PIPELINE_STAGE_TOP_OF_PIPE_BIT :: uint32_t where
  "VK_PIPELINE_STAGE_TOP_OF_PIPE_BIT = 1"
definition VK_PIPELINE_STAGE_FRAGMENT_SHADER_BIT :: uint32_t where
  "VK_PIPELINE_STAGE_FRAGMENT_SHADER_BIT = 128"
definition VK_PIPELINE_STAGE_TRANSFER_BIT :: uint32_t where
  "VK_PIPELINE_STAGE_TRANSFER_BIT = 4096"
definition VK_SAMPLE_COUNT_1_BIT :: uint32_t where "VK_SAMPLE_COUNT_1_BIT = 1"
definition VK_SAMPLE_COUNT_64_BIT :: uint32_t where "VK_SAMPLE_COUNT_64_BIT = 64"

text \<open>
  A physical device, as the library sees it: the answers of the Vulkan queries made on
  its handle. A feature structure is the list of its \<^verbatim>\<open>VkBool32\<close> members in
  declaration order, which is the memory \<^verbatim>\<open>compareFeatures\<close> scans from
  \<^verbatim>\<open>offset\<close> to \<^verbatim>\<open>size\<close>.
\<close>

record VkQueueFamilyProperties =
  queueFlags :: uint32_t
  presentationSupport :: VkBool32

record VkPhysicalDevice =
  apiVersion :: uint32_t
  framebufferColorSampleCounts :: uint32_t
  framebufferDepthSampleCounts :: uint32_t
  queueFamilyProperties :: "VkQueueFamilyProperties list"
  extensionProperties :: "string list"
  surfaceCapabilities :: VkSurfaceCapabilitiesKHR
  surfaceFormats :: "VkSurfaceFormatKHR list"
  surfacePresentModes :: "VkPresentModeKHR list"
  deviceFeatures :: "VkBool32 list"
  deviceFeatures11 :: "VkBool32 list"
  deviceFeatures12 :: "VkBool32 list"
  deviceFeatures13 :: "VkBool32 list"

section \<open>The data of the library\<close>

record config_t =
  deviceExtensions :: "string list"
  validationLayers :: "string list"
  vulkanVersion :: uint32_t
  features13 :: "VkBool32 list"
  features12 :: "VkBool32 list"
  features11 :: "VkBool32 list"
  features10 :: "VkBool32 list"

record queueFamilyIndices_t =
  nbRequiredFamilies :: nat
  families :: "uint32_t \<rightharpoonup> uint32_t"

definition isComplete :: "queueFamilyIndices_t \<Rightarrow> bool" where
  "isComplete indices = (card (dom (families indices)) = nbRequiredFamilies indices)"

definition GRAPHICS_QUEUE_FAMILY :: uint32_t where "GRAPHICS_QUEUE_FAMILY = 0"
definition PRESENTATION_QUEUE_FAMILY :: uint32_t where "PRESENTATION_QUEUE_FAMILY = 1"

record swapChainSupportDetails_t =
  capabilities :: VkSurfaceCapabilitiesKHR
  formats :: "VkSurfaceFormatKHR list"
  presentationModes :: "VkPresentModeKHR list"

record VkDeviceQueueCreateInfo =
  queueFamilyIndex :: uint32_t
  queueCount :: uint32_t
  pQueuePriorities :: "rat list"

record VkDeviceCreateInfo =
  pQueueCreateInfos :: "VkDeviceQueueCreateInfo list"
  enabledFeatures :: "VkBool32 list"
  enabledFeaturesNext :: "VkBool32 list list"
  ppEnabledExtensionNames :: "string list"
  ppEnabledLayerNames :: "string list"

text \<open>
  The calls \<^verbatim>\<open>mainLoop\<close> and \<^verbatim>\<open>drawFrame\<close> make, in the order they are made. What
  \<^verbatim>\<open>recreateSwapChain\<close> calls in its turn is not logged.
\<close>

datatype call =
    PollEvents
  | WaitForFences nat
  | AcquireNextImage nat
  | ResetFences nat
  | GetCommandBuffers uint32_t
  | QueueSubmit nat
  | QueuePresent nat uint32_t
  | RecreateSwapChain
  | DeviceWaitIdle

text \<open>
  The attributes of \<^verbatim>\<open>class Application\<close> that the modelled methods read or write.
  A handle that can be \<^verbatim>\<open>VK_NULL_HANDLE\<close> is an option. A queue is named by its
  family index and its index in the family, the arguments of \<^verbatim>\<open>vkGetDeviceQueue\<close>.
\<close>

record Application =
  config :: config_t
  framebufferResized :: bool
  physicalDevice :: "VkPhysicalDevice option"
  device :: "VkDeviceCreateInfo option"
  msaaNbMaxSamples :: uint32_t
  surfaceImageFormat :: VkFormat
  graphicsQueue :: "(uint32_t \<times> uint32_t) option"
  presentationQueue :: "(uint32_t \<times> uint32_t) option"
  imageAvailableSemaphores :: "VkSemaphore list"
  renderFinishedSemaphores :: "VkSemaphore list"
  inFlightFences :: "VkFence list"
  currentFrame :: uint32_t
  commandBufferList :: "nat list"
  calls :: "call list"

definition MAX_NB_FRAMES_IN_FLIGHT :: nat where "MAX_NB_FRAMES_IN_FLIGHT = 2"

text \<open>The default member initialisers of the class, before \<^verbatim>\<open>run\<close> is called.\<close>

definition Application_init :: "config_t \<Rightarrow> Application" where
  "Application_init cfg =
     \<lparr>config = cfg, framebufferResized = False, physicalDevice = None, device = None,
      msaaNbMaxSamples = VK_SAMPLE_COUNT_1_BIT, surfaceImageFormat = VK_FORMAT_UNDEFINED,
      graphicsQueue = None, presentationQueue = None,
      imageAvailableSemaphores = [], renderFinishedSemaphores = [], inFlightFences = [],
      currentFrame = 0, commandBufferList = [], calls = []\<rparr>"

definition record_call :: "call \<Rightarrow> Application \<Rightarrow> Application" where
  "record_call c a = a\<lparr>calls := calls a @ [c]\<rparr>"

text \<open>\<^verbatim>\<open>std::vector::resize\<close>: keep the first \<open>n\<close> elements, pad with the default value.\<close>

definition resize :: "nat \<Rightarrow> 'a \<Rightarrow> 'a list \<Rightarrow> 'a list" where
  "resize n x xs = take n xs @ replicate (n - length xs) x"

text \<open>\<^verbatim>\<open>std::map::operator[]\<close> read as a value: a missing key reads as 0.\<close>

definition map_at :: "(uint32_t \<rightharpoonup> uint32_t) \<Rightarrow> uint32_t \<Rightarrow> uint32_t" where
  "map_at m k = (case m k of None \<Rightarrow> 0 | Some v \<Rightarrow> v)"

section \<open>Physical devices\<close>

text \<open>
  \<^verbatim>\<open>compareFeatures\<close> (lines 1047-1062). The two pointers are the same structure type,
  so both lists have the \<open>nb\<close> members the loop visits.
\<close>

fun compareFeatures :: "VkBool32 list \<Rightarrow> VkBool32 list \<Rightarrow> bool \<Rightarrow> bool" where
  "compareFeatures (r # required) (s # supported) apiVersionSupported =
     (if r \<noteq> 0 \<and> (s = 0 \<or> \<not> apiVersionSupported) then False
      else compareFeatures required supported apiVersionSupported)"
| "compareFeatures _ _ _ = True"

text \<open>
  \<^verbatim>\<open>findQueueFamilies\<close> (lines 2055-2091): the loop over the queue families, with its
  counter \<open>i\<close> and the \<^verbatim>\<open>break\<close> once both roles have an index.
\<close>

fun findQueueFamilies_loop ::
  "VkQueueFamilyProperties list \<Rightarrow> int \<Rightarrow> queueFamilyIndices_t \<Rightarrow> queueFamilyIndices_t" where
  "findQueueFamilies_loop [] i indices = indices"
| "findQueueFamilies_loop (queueFamily # rest) i indices =
     (let indices1 =
            (if queueFlags queueFamily AND VK_QUEUE_GRAPHICS_BIT \<noteq> 0
             then indices\<lparr>families := (families indices)(GRAPHICS_QUEUE_FAMILY \<mapsto> word_of_int i)\<rparr>
             else indices);
          indices2 =
            (if presentationSupport queueFamily \<noteq> 0
             then indices1\<lparr>families := (families indices1)(PRESENTATION_QUEUE_FAMILY \<mapsto> word_of_int i)\<rparr>
             else indices1)
      in if isComplete indices2 then indices2
         else findQueueFamilies_loop rest (i + 1) indices2)"

definition findQueueFamilies :: "VkPhysicalDevice \<Rightarrow> queueFamilyIndices_t" where
  "findQueueFamilies dev =
     findQueueFamilies_loop (queueFamilyProperties dev) 0
       \<lparr>nbRequiredFamilies = 2, families = Map.empty\<rparr>"

text \<open>\<^verbatim>\<open>getRequiredDeviceExtensions\<close> (lines 2095-2118).\<close>

fun portability_loop :: "string list \<Rightarrow> string list \<Rightarrow> string list" where
  "portability_loop [] extensions = extensions"
| "portability_loop (extension # rest) extensions =
     (if extension = ''VK_KHR_portability_subset''
      then extensions @ [''VK_KHR_portability_subset'']
      else portability_loop rest extensions)"

definition getRequiredDeviceExtensions :: "Application \<Rightarrow> VkPhysicalDevice \<Rightarrow> string list" where
  "getRequiredDeviceExtensions a dev =
     portability_loop (extensionProperties dev) (deviceExtensions (config a))"

text \<open>
  \<^verbatim>\<open>checkDeviceExtensionSupport\<close> (lines 2122-2138): a \<^verbatim>\<open>std::set\<close> of the required
  names, from which every available name is erased.
\<close>

definition checkDeviceExtensionSupport :: "Application \<Rightarrow> VkPhysicalDevice \<Rightarrow> bool" where
  "checkDeviceExtensionSupport a dev =
     (fold (\<lambda>extension deviceExtensions. deviceExtensions - {extension})
        (extensionProperties dev) (set (getRequiredDeviceExtensions a dev)) = {})"

definition querySwapChainSupport :: "VkPhysicalDevice \<Rightarrow> swapChainSupportDetails_t" where
  "querySwapChainSupport dev =
     \<lparr>capabilities = surfaceCapabilities dev, formats = surfaceFormats dev,
      presentationModes = surfacePresentModes dev\<rparr>"

text \<open>
  \<^verbatim>\<open>isDeviceSuitable\<close> (lines 1931-2051), for headers that define all of
  \<^verbatim>\<open>VK_API_VERSION_1_1\<close>, \<^verbatim>\<open>VK_API_VERSION_1_2\<close> and \<^verbatim>\<open>VK_API_VERSION_1_3\<close>.
\<close>

definition isDeviceSuitable :: "Application \<Rightarrow> VkPhysicalDevice \<Rightarrow> bool" where
  "isDeviceSuitable a dev =
     (let indices = findQueueFamilies dev;
          extensionsSupported = checkDeviceExtensionSupport a dev;
          swapChainAdequate =
            (if extensionsSupported
             then formats (querySwapChainSupport dev) \<noteq> [] \<and>
                  presentationModes (querySwapChainSupport dev) \<noteq> []
             else False)
      in if \<not> isComplete indices \<or> \<not> extensionsSupported \<or> \<not> swapChainAdequate then False
         else if vulkanVersion (config a) = VK_API_VERSION_1_0
         then compareFeatures (features10 (config a)) (deviceFeatures dev) True
         else if \<not> compareFeatures (features10 (config a)) (deviceFeatures dev) True then False
         else if \<not> compareFeatures (features11 (config a)) (deviceFeatures11 dev)
                     (VK_API_VERSION_1_1 \<le> apiVersion dev) then False
         else if \<not> compareFeatures (features12 (config a)) (deviceFeatures12 dev)
                     (VK_API_VERSION_1_2 \<le> apiVersion dev) then False
         else if \<not> compareFeatures (features13 (config a)) (deviceFeatures13 dev)
                     (VK_API_VERSION_1_3 \<le> apiVersion dev) then False
         else True)"

text \<open>
  \<^verbatim>\<open>getMaxUsableSampleCount\<close> (lines 2142-2158), for the device given. The loop variable
  \<^verbatim>\<open>flag\<close> starts at \<^verbatim>\<open>VK_SAMPLE_COUNT_64_BIT\<close> and is halved while it is above
  \<^verbatim>\<open>VK_SAMPLE_COUNT_1_BIT\<close>; the list holds the values it takes.
\<close>

fun getMaxUsableSampleCount_loop :: "uint32_t \<Rightarrow> uint32_t list \<Rightarrow> uint32_t" where
  "getMaxUsableSampleCount_loop counts [] = VK_SAMPLE_COUNT_1_BIT"
| "getMaxUsableSampleCount_loop counts (flag # rest) =
     (if counts AND flag \<noteq> 0 then flag else getMaxUsableSampleCount_loop counts rest)"

definition getMaxUsableSampleCount :: "VkPhysicalDevice \<Rightarrow> uint32_t" where
  "getMaxUsableSampleCount dev =
     getMaxUsableSampleCount_loop
       (framebufferColorSampleCounts dev AND framebufferDepthSampleCounts dev)
       [VK_SAMPLE_COUNT_64_BIT, 32, 16, 8, 4, 2]"

text \<open>
  \<^verbatim>\<open>chooseSwapSurfaceFormat\<close> (lines 2395-2410). \<^verbatim>\<open>availableFormats[0]\<close> on an empty
  vector is out of range: \<open>None\<close>.
\<close>

fun chooseSwapSurfaceFormat_loop :: "VkSurfaceFormatKHR list \<Rightarrow> VkSurfaceFormatKHR option" where
  "chooseSwapSurfaceFormat_loop [] = None"
| "chooseSwapSurfaceFormat_loop (availableFormat # rest) =
     (if format availableFormat = VK_FORMAT_B8G8R8A8_SRGB \<and>
         colorSpace availableFormat = VK_COLOR_SPACE_SRGB_NONLINEAR_KHR
      then Some availableFormat
      else chooseSwapSurfaceFormat_loop rest)"

definition chooseSwapSurfaceFormat :: "VkSurfaceFormatKHR list \<Rightarrow> VkSurfaceFormatKHR option" where
  "chooseSwapSurfaceFormat availableFormats =
     (case chooseSwapSurfaceFormat_loop availableFormats of
        Some availableFormat \<Rightarrow> Some availableFormat
      | None \<Rightarrow> (case availableFormats of [] \<Rightarrow> None | first # _ \<Rightarrow> Some first))"

text \<open>
  \<^verbatim>\<open>pickPhysicalDevice\<close> (lines 1892-1927). \<open>devices\<close> is what
  \<^verbatim>\<open>vkEnumeratePhysicalDevices\<close> returns, in its order.
\<close>

fun pickPhysicalDevice_loop :: "VkPhysicalDevice list \<Rightarrow> Application \<Rightarrow> Application" where
  "pickPhysicalDevice_loop [] a = a"
| "pickPhysicalDevice_loop (dev # rest) a =
     (if isDeviceSuitable a dev
      then a\<lparr>physicalDevice := Some dev, msaaNbMaxSamples := getMaxUsableSampleCount dev\<rparr>
      else pickPhysicalDevice_loop rest a)"

definition pickPhysicalDevice :: "VkPhysicalDevice list \<Rightarrow> Application \<Rightarrow> status \<times> Application" where
  "pickPhysicalDevice devices a =
     (if length devices = 0
      then (Thrown (runtime_error ''Failed to find GPUs with Vulkan support!''), a)
      else
        let a1 = pickPhysicalDevice_loop devices a in
        case physicalDevice a1 of
          None \<Rightarrow> (Thrown (runtime_error ''Failed to find a suitable GPU!''), a1)
        | Some dev \<Rightarrow>
            (case chooseSwapSurfaceFormat (formats (querySwapChainSupport dev)) of
               None \<Rightarrow> (Undefined, a1)
             | Some surfaceFormat \<Rightarrow>
                 (Returned, a1\<lparr>surfaceImageFormat := format surfaceFormat\<rparr>)))"

section \<open>Logical devices\<close>

text \<open>
  \<^verbatim>\<open>std::set<uint32_t>\<close> built from an initialiser list: every element is inserted, a
  value already present is not inserted again, and iteration is in ascending order.
\<close>

definition std_set :: "uint32_t list \<Rightarrow> uint32_t list" where
  "std_set xs = fold insort_insert xs []"

text \<open>
  \<^verbatim>\<open>createLogicalDevice\<close> (lines 2163-2228). \<open>deviceCreateInfo\<close> is the structure the
  method fills and hands to \<^verbatim>\<open>vkCreateDevice\<close>; \<open>enableValidationLayers\<close> is the
  build-time constant of that name and \<open>createResult\<close> is what \<^verbatim>\<open>vkCreateDevice\<close>
  returns.
\<close>

definition deviceCreateInfo :: "bool \<Rightarrow> Application \<Rightarrow> VkPhysicalDevice \<Rightarrow> VkDeviceCreateInfo" where
  "deviceCreateInfo enableValidationLayers a dev =
     (let indices = findQueueFamilies dev;
          requiredExtensions = getRequiredDeviceExtensions a dev;
          uniqueQueueFamilies =
            std_set [map_at (families indices) GRAPHICS_QUEUE_FAMILY,
                     map_at (families indices) PRESENTATION_QUEUE_FAMILY];
          queueCreateInfos =
            map (\<lambda>queueFamily.
                   \<lparr>queueFamilyIndex = queueFamily, queueCount = 1, pQueuePriorities = [1]\<rparr>)
                uniqueQueueFamilies
      in \<lparr>pQueueCreateInfos = queueCreateInfos,
          enabledFeatures = features10 (config a),
          enabledFeaturesNext =
            [features11 (config a), features12 (config a), features13 (config a)],
          ppEnabledExtensionNames = requiredExtensions,
          ppEnabledLayerNames =
            (if enableValidationLayers then validationLayers (config a) else [])\<rparr>)"

definition createLogicalDevice :: "bool \<Rightarrow> VkResult \<Rightarrow> Application \<Rightarrow> status \<times> Application" where
  "createLogicalDevice enableValidationLayers createResult a =
     (case physicalDevice a of
        None \<Rightarrow> (Undefined, a)
      | Some dev \<Rightarrow>
          let indices = findQueueFamilies dev;
              createInfo = deviceCreateInfo enableValidationLayers a dev
          in if createResult \<noteq> VK_SUCCESS
             then (Thrown (runtime_error ''Failed to create logical device!''), a)
             else (Returned,
                   a\<lparr>device := Some createInfo,
                     graphicsQueue :=
                       Some (map_at (families indices) GRAPHICS_QUEUE_FAMILY, 0),
                     presentationQueue :=
                       Some (map_at (families indices) PRESENTATION_QUEUE_FAMILY, 0)\<rparr>))"

section \<open>Swap chain\<close>

text \<open>\<^verbatim>\<open>std::numeric_limits<uint32_t>::max()\<close>.\<close>

definition UINT32_MAX :: uint32_t where "UINT32_MAX = 4294967295"

text \<open>
  \<^verbatim>\<open>std::clamp(v, lo, hi)\<close>, as the standard defines it for \<open>lo \<le> hi\<close>. The standard
  leaves \<open>hi < lo\<close> undefined; the properties of the swap extent assume that the
  surface reports a minimum extent that does not exceed the maximum.
\<close>

definition std_clamp :: "uint32_t \<Rightarrow> uint32_t \<Rightarrow> uint32_t \<Rightarrow> uint32_t" where
  "std_clamp v lo hi = (if v < lo then lo else if hi < v then hi else v)"

text \<open>
  \<^verbatim>\<open>chooseSwapExtent\<close> (lines 2432-2463). \<open>framebufferSize\<close> is the pair of
  \<^verbatim>\<open>int\<close>s that \<^verbatim>\<open>glfwGetFramebufferSize\<close> writes; the \<^verbatim>\<open>static_cast\<close> to
  \<^verbatim>\<open>uint32_t\<close> is \<open>word_of_int\<close>.
\<close>

definition chooseSwapExtent :: "int \<times> int \<Rightarrow> VkSurfaceCapabilitiesKHR \<Rightarrow> VkExtent2D" where
  "chooseSwapExtent framebufferSize caps =
     (if width (currentExtent caps) \<noteq> UINT32_MAX then currentExtent caps
      else
        let actualExtent =
              \<lparr>width = word_of_int (fst framebufferSize),
               height = word_of_int (snd framebufferSize)\<rparr>;
            actualExtent1 =
              actualExtent\<lparr>width :=
                std_clamp (width actualExtent) (width (minImageExtent caps))
                  (width (maxImageExtent caps))\<rparr>;
            actualExtent2 =
              actualExtent1\<lparr>height :=
                std_clamp (height actualExtent1) (height (minImageExtent caps))
                  (height (maxImageExtent caps))\<rparr>
        in actualExtent2)"

section \<open>Synchronisation objects and the frame cycle\<close>






text \<open>
  The fence operations. \<^verbatim>\<open>vkWaitForFences\<close> is called with the timeout
  \<^verbatim>\<open>UINT64_MAX\<close>: on a signaled fence it returns at once, on a pending fence it
  returns when the device has signaled the fence, on an unsignaled fence that no batch
  will signal it does not return.
\<close>

fun vkWaitForFences :: "VkFence \<Rightarrow> status \<times> VkFence" where
  "vkWaitForFences Signaled = (Returned, Signaled)"
| "vkWaitForFences Pending = (Returned, Signaled)"
| "vkWaitForFences Unsignaled = (Blocked, Unsignaled)"
| "vkWaitForFences NullFence = (Undefined, NullFence)"

definition vkResetFences :: "VkFence \<Rightarrow> VkFence" where
  "vkResetFences fence = Unsignaled"

definition vkQueueSubmit :: "VkResult \<Rightarrow> VkFence \<Rightarrow> VkFence" where
  "vkQueueSubmit result fence = (if result = VK_SUCCESS then Pending else fence)"

text \<open>\<^verbatim>\<open>inFlightFences[i]\<close>; out of range there is no fence to name.\<close>

definition fence_at :: "Application \<Rightarrow> nat \<Rightarrow> VkFence" where
  "fence_at a i = (if i < length (inFlightFences a) then inFlightFences a ! i else NullFence)"

definition set_fence :: "nat \<Rightarrow> VkFence \<Rightarrow> Application \<Rightarrow> Application" where
  "set_fence i fence a = a\<lparr>inFlightFences := (inFlightFences a)[i := fence]\<rparr>"

text \<open>
  What \<^verbatim>\<open>recreateSwapChain\<close> meets when it runs: the size the first
  \<^verbatim>\<open>glfwGetFramebufferSize\<close> reports; for every turn of its \<^verbatim>\<open>while\<close> loop, the size
  \<^verbatim>\<open>glfwGetFramebufferSize\<close> reports in that turn and whether \<^verbatim>\<open>glfwWaitEvents\<close> ran the
  resize callback \<^verbatim>\<open>onFramebufferWindowResized\<close> (lines 1039-1043); and how each of the
  four methods it then calls ends, \<open>None\<close> for a return and \<open>Some e\<close> for the exception
  \<open>e\<close>. \<^verbatim>\<open>cleanupSwapChain\<close> and \<^verbatim>\<open>onSwapChainReady\<close> run the application's own
  overrides, \<^verbatim>\<open>createSwapChain\<close> throws when \<^verbatim>\<open>vkCreateSwapchainKHR\<close> fails (lines
  2295-2296), \<^verbatim>\<open>createImageViews\<close> when \<^verbatim>\<open>vkCreateImageView\<close> fails (lines 1397-1398).
\<close>

record recreate_results =
  framebufferSize :: "int \<times> int"
  minimisedTurns :: "((int \<times> int) \<times> bool) list"
  cleanupSwapChainThrows :: "exn option"
  createSwapChainThrows :: "exn option"
  createImageViewsThrows :: "exn option"
  onSwapChainReadyThrows :: "exn option"

text \<open>
  The loop of \<^verbatim>\<open>recreateSwapChain\<close> (lines 2312-2318). \<open>reported\<close> is the pair
  \<^verbatim>\<open>width\<close>, \<^verbatim>\<open>height\<close> the condition tests. When the window still has no size and
  the turns are used up, GLFW never reports a size again: the loop does not end.
\<close>

fun waitWhileMinimised ::
  "int \<times> int \<Rightarrow> ((int \<times> int) \<times> bool) list \<Rightarrow> Application \<Rightarrow> status \<times> Application" where
  "waitWhileMinimised reported [] a =
     (if fst reported = 0 \<or> snd reported = 0 then (Spinning, a) else (Returned, a))"
| "waitWhileMinimised reported ((reported', resized) # rest) a =
     (if fst reported = 0 \<or> snd reported = 0
      then waitWhileMinimised reported' rest
             (if resized then a\<lparr>framebufferResized := True\<rparr> else a)
      else (Returned, a))"

text \<open>
  \<^verbatim>\<open>recreateSwapChain\<close> (lines 2309-2328): the loop, then \<^verbatim>\<open>vkDeviceWaitIdle\<close>, then
  \<^verbatim>\<open>cleanupSwapChain\<close>, \<^verbatim>\<open>createSwapChain\<close>, \<^verbatim>\<open>createImageViews\<close> and
  \<^verbatim>\<open>onSwapChainReady\<close> in this order; the first that throws ends the method. The swap
  chain itself is not among the attributes kept here, so of the four calls only their
  ending matters. The fences and \<^verbatim>\<open>currentFrame\<close> are not written.
\<close>

definition recreateSwapChain :: "recreate_results \<Rightarrow> Application \<Rightarrow> status \<times> Application" where
  "recreateSwapChain r a =
     (case waitWhileMinimised (framebufferSize r) (minimisedTurns r)
             (record_call RecreateSwapChain a) of
        (Returned, a1) \<Rightarrow>
          (case cleanupSwapChainThrows r of
             Some e \<Rightarrow> (Thrown e, a1)
           | None \<Rightarrow>
          (case createSwapChainThrows r of
             Some e \<Rightarrow> (Thrown e, a1)
           | None \<Rightarrow>
          (case createImageViewsThrows r of
             Some e \<Rightarrow> (Thrown e, a1)
           | None \<Rightarrow>
          (case onSwapChainReadyThrows r of
             Some e \<Rightarrow> (Thrown e, a1)
           | None \<Rightarrow> (Returned, a1)))))
      | (ended, a1) \<Rightarrow> (ended, a1))"

text \<open>
  What Vulkan answers to the calls of one frame, and what \<^verbatim>\<open>recreateSwapChain\<close> meets
  if the frame calls it.
\<close>

record frame_results =
  acquireResult :: VkResult
  imageIndex :: uint32_t
  submitResult :: VkResult
  presentResult :: VkResult
  recreation :: recreate_results

text \<open>
  \<^verbatim>\<open>drawFrame\<close> (lines 1169-1249). The parameter \<^verbatim>\<open>elapsed\<close> is only passed on to
  \<^verbatim>\<open>getCommandBuffers\<close> and is left out. The slot's two semaphores are named by the
  slot index in the logged calls. \<^verbatim>\<open>getCommandBuffers\<close>, the pure virtual method the
  application implements, is a recorded call that returns. An exception of
  \<^verbatim>\<open>recreateSwapChain\<close> passes through \<^verbatim>\<open>drawFrame\<close>; after the present call it skips
  the assignment to \<^verbatim>\<open>currentFrame\<close> in line 1248.
\<close>

definition drawFrame :: "frame_results \<Rightarrow> Application \<Rightarrow> status \<times> Application" where
  "drawFrame r a =
     (let slot = unat (currentFrame a);
          a1 = record_call (WaitForFences slot) a
      in case vkWaitForFences (fence_at a1 slot) of
           (Returned, fence) \<Rightarrow>
             (let a2 = record_call (AcquireNextImage slot) (set_fence slot fence a1);
                 result = acquireResult r
             in if result = VK_ERROR_OUT_OF_DATE_KHR
                then recreateSwapChain (recreation r) a2
                else if result \<noteq> VK_SUCCESS \<and> result \<noteq> VK_SUBOPTIMAL_KHR
                then (Thrown (runtime_error ''Failed to acquire swap chain image!''), a2)
                else
                  let a3 = record_call (ResetFences slot)
                             (set_fence slot (vkResetFences (fence_at a2 slot)) a2);
                      a4 = record_call (GetCommandBuffers (imageIndex r)) a3;
                      a5 = record_call (QueueSubmit slot)
                             (set_fence slot (vkQueueSubmit (submitResult r) (fence_at a4 slot)) a4)
                  in if submitResult r \<noteq> VK_SUCCESS
                     then (Thrown (runtime_error ''Failed to submit draw command buffer!''), a5)
                     else
                       let a6 = record_call (QueuePresent slot (imageIndex r)) a5;
                           result = presentResult r
                       in if result = VK_ERROR_OUT_OF_DATE_KHR \<or> result = VK_SUBOPTIMAL_KHR \<or>
                             framebufferResized a6
                          then
                            (case recreateSwapChain (recreation r)
                                    (a6\<lparr>framebufferResized := False\<rparr>) of
                               (Returned, a7) \<Rightarrow>
                                 (Returned,
                                  a7\<lparr>currentFrame :=
                                       (currentFrame a7 + 1) mod of_nat MAX_NB_FRAMES_IN_FLIGHT\<rparr>)
                             | (ended, a7) \<Rightarrow> (ended, a7))
                          else if result \<noteq> VK_SUCCESS
                          then (Thrown (runtime_error ''Failed to present swap chain image!''), a6)
                          else (Returned,
                                a6\<lparr>currentFrame :=
                                     (currentFrame a6 + 1) mod of_nat MAX_NB_FRAMES_IN_FLIGHT\<rparr>))
         | (ended, _) \<Rightarrow> (ended, a1))"

text \<open>
  \<^verbatim>\<open>mainLoop\<close> (lines 1137-1165). One element of the list is one turn of the
  \<^verbatim>\<open>while\<close> loop: whether GLFW delivered a resize during \<^verbatim>\<open>glfwPollEvents\<close>, what
  \<^verbatim>\<open>getNbCommandBuffers\<close> returned, and what Vulkan answered in \<^verbatim>\<open>drawFrame\<close>. The
  list ends where \<^verbatim>\<open>glfwWindowShouldClose\<close> becomes true. An exception leaves the loop.
\<close>

record iteration =
  resizeDelivered :: bool
  nbCommandBuffers :: uint32_t
  frame :: frame_results

definition glfwPollEvents :: "iteration \<Rightarrow> Application \<Rightarrow> Application" where
  "glfwPollEvents it a =
     (let a1 = record_call PollEvents a
      in if resizeDelivered it then a1\<lparr>framebufferResized := True\<rparr> else a1)"

fun mainLoop :: "iteration list \<Rightarrow> Application \<Rightarrow> status \<times> Application" where
  "mainLoop [] a = (Returned, record_call DeviceWaitIdle a)"
| "mainLoop (it # rest) a =
     (let a1 = glfwPollEvents it a;
          a2 = (if unat (nbCommandBuffers it) \<noteq> length (commandBufferList a1)
                then a1\<lparr>commandBufferList :=
                        resize (unat (nbCommandBuffers it)) 0 (commandBufferList a1)\<rparr>
                else a1)
      in if 0 < nbCommandBuffers it
         then (case drawFrame (frame it) a2 of
                 (Returned, a3) \<Rightarrow> mainLoop rest a3
               | (ended, a3) \<Rightarrow> (ended, a3))
         else mainLoop rest a2)"

section \<open>Recording a layout transition\<close>

record VkImageMemoryBarrier =
  oldLayout :: VkImageLayout
  newLayout :: VkImageLayout
  srcQueueFamilyIndex :: uint32_t
  dstQueueFamilyIndex :: uint32_t
  image :: nat
  aspectMask :: uint32_t
  baseMipLevel :: uint32_t
  levelCount :: uint32_t
  baseArrayLayer :: uint32_t
  layerCount :: uint32_t
  srcAccessMask :: uint32_t
  dstAccessMask :: uint32_t

text \<open>
  A command buffer is the list of the commands recorded into it.
  \<open>CmdPipelineBarrier sourceStage destinationStage barrier\<close> is the one call of
  \<^verbatim>\<open>vkCmdPipelineBarrier\<close> the helper makes.
\<close>

datatype command = CmdPipelineBarrier uint32_t uint32_t VkImageMemoryBarrier

text \<open>\<^verbatim>\<open>recordTransitionImageLayoutCommand\<close> (lines 1525-1578).\<close>

definition recordTransitionImageLayoutCommand ::
  "command list \<Rightarrow> nat \<Rightarrow> VkFormat \<Rightarrow> VkImageLayout \<Rightarrow> VkImageLayout \<Rightarrow> uint32_t
     \<Rightarrow> status \<times> command list" where
  "recordTransitionImageLayoutCommand commandBuffer img fmt old new mipLevels =
     (let barrier =
            \<lparr>oldLayout = old, newLayout = new,
             srcQueueFamilyIndex = VK_QUEUE_FAMILY_IGNORED,
             dstQueueFamilyIndex = VK_QUEUE_FAMILY_IGNORED,
             image = img, aspectMask = VK_IMAGE_ASPECT_COLOR_BIT,
             baseMipLevel = 0, levelCount = mipLevels,
             baseArrayLayer = 0, layerCount = 1,
             srcAccessMask = 0, dstAccessMask = 0\<rparr>
      in if old = VK_IMAGE_LAYOUT_UNDEFINED \<and> new = VK_IMAGE_LAYOUT_TRANSFER_DST_OPTIMAL
         then (Returned,
               commandBuffer @
                 [CmdPipelineBarrier VK_PIPELINE_STAGE_TOP_OF_PIPE_BIT
                    VK_PIPELINE_STAGE_TRANSFER_BIT
                    (barrier\<lparr>srcAccessMask := 0,
                       dstAccessMask := VK_ACCESS_TRANSFER_WRITE_BIT\<rparr>)])
         else if old = VK_IMAGE_LAYOUT_TRANSFER_DST_OPTIMAL \<and>
                 new = VK_IMAGE_LAYOUT_SHADER_READ_ONLY_OPTIMAL
         then (Returned,
               commandBuffer @
                 [CmdPipelineBarrier VK_PIPELINE_STAGE_TRANSFER_BIT
                    VK_PIPELINE_STAGE_FRAGMENT_SHADER_BIT
                    (barrier\<lparr>srcAccessMask := VK_ACCESS_TRANSFER_WRITE_BIT,
                       dstAccessMask := VK_ACCESS_SHADER_READ_BIT\<rparr>)])
         else (Thrown (invalid_argument ''Unsupported layout transition!''), commandBuffer))"

section \<open>Observations and example inputs\<close>

text \<open>The calls one run of \<^verbatim>\<open>drawFrame\<close> adds to the log.\<close>

definition frame_calls :: "frame_results \<Rightarrow> Application \<Rightarrow> call list" where
  "frame_calls r a = drop (length (calls a)) (calls (snd (drawFrame r a)))"

text \<open>The three tests \<^verbatim>\<open>drawFrame\<close> branches on, named.\<close>

definition wait_returns :: "Application \<Rightarrow> bool" where
  "wait_returns a =
     (fence_at a (unat (currentFrame a)) = Signaled \<or> fence_at a (unat (currentFrame a)) = Pending)"

definition acquired :: "frame_results \<Rightarrow> bool" where
  "acquired r = (acquireResult r = VK_SUCCESS \<or> acquireResult r = VK_SUBOPTIMAL_KHR)"

definition must_recreate :: "frame_results \<Rightarrow> Application \<Rightarrow> bool" where
  "must_recreate r a =
     (presentResult r = VK_ERROR_OUT_OF_DATE_KHR \<or> presentResult r = VK_SUBOPTIMAL_KHR \<or>
      framebufferResized a)"



text \<open>
  A configuration, the application after \<^verbatim>\<open>createSyncObjects\<close> succeeded on it, and
  three recreations: one that finds a window with a size and rebuilds the swap chain
  without an exception; one in which \<^verbatim>\<open>createSwapChain\<close> throws; one that finds the
  window minimised, and in the first turn of its loop is reported the size 800 by 600
  and has the resize callback run during \<^verbatim>\<open>glfwWaitEvents\<close>. Then the answers to one
  frame in which everything succeeds.
\<close>

definition example_config :: config_t where
  "example_config =
     \<lparr>deviceExtensions = [''VK_KHR_swapchain''],
      validationLayers = [''VK_LAYER_KHRONOS_validation''],
      vulkanVersion = VK_API_VERSION_1_3,
      features13 = [0, 0, 0], features12 = [0, 0, 0], features11 = [0, 0, 0],
      features10 = [0, 1, 0]\<rparr>"

definition example_frame :: Application where
  "example_frame =
     (Application_init example_config)\<lparr>
        imageAvailableSemaphores := [Semaphore, Semaphore],
        renderFinishedSemaphores := [Semaphore, Semaphore],
        inFlightFences := [Signaled, Signaled]\<rparr>"


definition recreation_ok :: recreate_results where
  "recreation_ok =
     \<lparr>framebufferSize = (800, 600), minimisedTurns = [],
      cleanupSwapChainThrows = None, createSwapChainThrows = None,
      createImageViewsThrows = None, onSwapChainReadyThrows = None\<rparr>"

definition recreation_fails :: recreate_results where
  "recreation_fails =
     recreation_ok\<lparr>createSwapChainThrows :=
       Some (runtime_error ''Failed to create swap chain!'')\<rparr>"

definition recreation_minimised :: recreate_results where
  "recreation_minimised =
     recreation_ok\<lparr>framebufferSize := (0, 0), minimisedTurns := [((800, 600), True)]\<rparr>"

definition frame_ok :: frame_results where
  "frame_ok =
     \<lparr>acquireResult = VK_SUCCESS, imageIndex = 0, submitResult = VK_SUCCESS,
      presentResult = VK_SUCCESS, recreation = recreation_ok\<rparr>"

text \<open>
  The shape of the role map \<^verbatim>\<open>findQueueFamilies\<close> works on: two roles are required
  and only the two role identifiers are ever keys.
\<close>

definition roles_wf :: "queueFamilyIndices_t \<Rightarrow> bool" where
  "roles_wf indices =
     (nbRequiredFamilies indices = 2 \<and>
      dom (families indices) \<subseteq> {GRAPHICS_QUEUE_FAMILY, PRESENTATION_QUEUE_FAMILY})"

text \<open>
  A surface and four devices: one with a combined graphics and presentation family, one
  with the two roles on different families, one that reports API version 1.0, one that
  reports flag 1 of the 1.1 tier. And a configuration that targets Vulkan 1.0 while
  setting flag 1 of the 1.1 tier.
\<close>

definition example_caps :: VkSurfaceCapabilitiesKHR where
  "example_caps =
     \<lparr>minImageCount = 2, maxImageCount = 8,
      currentExtent = \<lparr>width = 800, height = 600\<rparr>,
      minImageExtent = \<lparr>width = 1, height = 1\<rparr>,
      maxImageExtent = \<lparr>width = 4096, height = 4096\<rparr>\<rparr>"

definition example_device :: VkPhysicalDevice where
  "example_device =
     \<lparr>apiVersion = VK_API_VERSION_1_3,
      framebufferColorSampleCounts = 15, framebufferDepthSampleCounts = 7,
      queueFamilyProperties = [\<lparr>queueFlags = 7, presentationSupport = 1\<rparr>],
      extensionProperties = [''VK_KHR_swapchain'', ''VK_KHR_maintenance1''],
      surfaceCapabilities = example_caps,
      surfaceFormats =
        [\<lparr>format = VK_FORMAT_B8G8R8A8_SRGB, colorSpace = VK_COLOR_SPACE_SRGB_NONLINEAR_KHR\<rparr>],
      surfacePresentModes = [VK_PRESENT_MODE_FIFO_KHR],
      deviceFeatures = [1, 1, 1], deviceFeatures11 = [1, 0, 0],
      deviceFeatures12 = [0, 0, 0], deviceFeatures13 = [0, 0, 0]\<rparr>"

definition split_device :: VkPhysicalDevice where
  "split_device =
     example_device\<lparr>queueFamilyProperties :=
       [\<lparr>queueFlags = 1, presentationSupport = 0\<rparr>,
        \<lparr>queueFlags = 4, presentationSupport = 1\<rparr>]\<rparr>"

definition old_device :: VkPhysicalDevice where
  "old_device = example_device\<lparr>apiVersion := VK_API_VERSION_1_0\<rparr>"

definition capable_device :: VkPhysicalDevice where
  "capable_device = example_device\<lparr>deviceFeatures11 := [1, 1, 0]\<rparr>"

definition legacy_config :: config_t where
  "legacy_config =
     example_config\<lparr>vulkanVersion := VK_API_VERSION_1_0, features11 := [0, 1, 0]\<rparr>"

section \<open>Properties of the frame cycle\<close>

lemma calls_record_call [simp]: "calls (record_call c a) = calls a @ [c]"
  by (simp add: record_call_def)

lemma fences_record_call [simp]: "inFlightFences (record_call c a) = inFlightFences a"
  by (simp add: record_call_def)

lemma currentFrame_record_call [simp]: "currentFrame (record_call c a) = currentFrame a"
  by (simp add: record_call_def)

lemma resized_record_call [simp]: "framebufferResized (record_call c a) = framebufferResized a"
  by (simp add: record_call_def)

lemma fence_at_record_call [simp]: "fence_at (record_call c a) i = fence_at a i"
  by (simp add: fence_at_def)

lemma calls_set_fence [simp]: "calls (set_fence i f a) = calls a"
  by (simp add: set_fence_def)

lemma currentFrame_set_fence [simp]: "currentFrame (set_fence i f a) = currentFrame a"
  by (simp add: set_fence_def)

lemma resized_set_fence [simp]: "framebufferResized (set_fence i f a) = framebufferResized a"
  by (simp add: set_fence_def)

lemma fences_set_fence [simp]: "inFlightFences (set_fence i f a) = (inFlightFences a)[i := f]"
  by (simp add: set_fence_def)

lemma fence_at_set_fence [simp]:
  "fence_at (set_fence i f a) j =
     (if j < length (inFlightFences a) then (if i = j then f else inFlightFences a ! j) else NullFence)"
  by (simp add: fence_at_def set_fence_def)


lemma waitWhileMinimised_keeps [simp]:
  "calls (snd (waitWhileMinimised reported turns a)) = calls a \<and>
   inFlightFences (snd (waitWhileMinimised reported turns a)) = inFlightFences a \<and>
   currentFrame (snd (waitWhileMinimised reported turns a)) = currentFrame a"
proof (induction turns arbitrary: reported a)
  case Nil
  show ?case by simp
next
  case (Cons t rest)
  obtain reported' resized where t: "t = (reported', resized)" by (cases t)
  show ?case
    using Cons.IH [of reported' "a\<lparr>framebufferResized := True\<rparr>"] Cons.IH [of reported' a]
    by (simp add: t)
qed


lemma waitWhileMinimised_status:
  "fst (waitWhileMinimised reported turns a) = fst (waitWhileMinimised reported turns b)"
proof (induction turns arbitrary: reported a b)
  case Nil
  show ?case by simp
next
  case (Cons t rest)
  obtain reported' resized where t: "t = (reported', resized)" by (cases t)
  show ?case
    using Cons.IH [of reported' "a\<lparr>framebufferResized := True\<rparr>"
                      "b\<lparr>framebufferResized := True\<rparr>"]
          Cons.IH [of reported' a b]
    by (simp add: t)
qed

lemma waitWhileMinimised_resized:
  "framebufferResized a = framebufferResized b \<Longrightarrow>
   framebufferResized (snd (waitWhileMinimised reported turns a)) =
   framebufferResized (snd (waitWhileMinimised reported turns b))"
proof (induction turns arbitrary: reported a b)
  case Nil
  then show ?case by simp
next
  case (Cons t rest)
  obtain reported' resized where t: "t = (reported', resized)" by (cases t)
  have "framebufferResized (if resized then a\<lparr>framebufferResized := True\<rparr> else a) =
        framebufferResized (if resized then b\<lparr>framebufferResized := True\<rparr> else b)"
    using Cons.prems by simp
  from Cons.IH [OF this, of reported'] Cons.prems show ?case
    by (simp add: t)
qed


lemma resized_update_record_call [simp]:
  "(record_call c a)\<lparr>framebufferResized := b\<rparr> = record_call c (a\<lparr>framebufferResized := b\<rparr>)"
  by (simp add: record_call_def)

lemma resized_update_set_fence [simp]:
  "(set_fence i f a)\<lparr>framebufferResized := b\<rparr> = set_fence i f (a\<lparr>framebufferResized := b\<rparr>)"
  by (simp add: set_fence_def)

lemma recreateSwapChain_fst:
  "fst (recreateSwapChain r a) =
     (if fst (waitWhileMinimised (framebufferSize r) (minimisedTurns r)
                (record_call RecreateSwapChain a)) = Returned
      then (case cleanupSwapChainThrows r of Some e \<Rightarrow> Thrown e | None \<Rightarrow>
           (case createSwapChainThrows r of Some e \<Rightarrow> Thrown e | None \<Rightarrow>
           (case createImageViewsThrows r of Some e \<Rightarrow> Thrown e | None \<Rightarrow>
           (case onSwapChainReadyThrows r of Some e \<Rightarrow> Thrown e | None \<Rightarrow> Returned))))
      else fst (waitWhileMinimised (framebufferSize r) (minimisedTurns r)
                  (record_call RecreateSwapChain a)))"
proof -
  obtain st a1 where w: "waitWhileMinimised (framebufferSize r) (minimisedTurns r)
                (record_call RecreateSwapChain a) = (st, a1)"
    by (cases "waitWhileMinimised (framebufferSize r) (minimisedTurns r)
                (record_call RecreateSwapChain a)")
  show ?thesis
    unfolding recreateSwapChain_def w
    by (cases st) (simp_all split: option.splits)
qed

lemma recreateSwapChain_snd:
  "snd (recreateSwapChain r a) =
     snd (waitWhileMinimised (framebufferSize r) (minimisedTurns r)
            (record_call RecreateSwapChain a))"
proof -
  obtain st a1 where w: "waitWhileMinimised (framebufferSize r) (minimisedTurns r)
                (record_call RecreateSwapChain a) = (st, a1)"
    by (cases "waitWhileMinimised (framebufferSize r) (minimisedTurns r)
                (record_call RecreateSwapChain a)")
  show ?thesis
    unfolding recreateSwapChain_def w
    by (cases st) (simp_all split: option.splits)
qed

lemma recreateSwapChain_keeps [simp]:
  "calls (snd (recreateSwapChain r a)) = calls a @ [RecreateSwapChain]"
  "inFlightFences (snd (recreateSwapChain r a)) = inFlightFences a"
  "currentFrame (snd (recreateSwapChain r a)) = currentFrame a"
  by (simp_all add: recreateSwapChain_snd)

lemma fence_at_recreateSwapChain [simp]:
  "fence_at (snd (recreateSwapChain r a)) i = fence_at a i"
  by (simp add: fence_at_def)

lemma recreateSwapChain_status:
  "fst (recreateSwapChain r a) = fst (recreateSwapChain r b)"
  unfolding recreateSwapChain_fst
  using waitWhileMinimised_status
          [of "framebufferSize r" "minimisedTurns r" "record_call RecreateSwapChain a"
              "record_call RecreateSwapChain b"]
  by simp

lemma recreateSwapChain_status_simps [simp]:
  "fst (recreateSwapChain r (record_call c a)) = fst (recreateSwapChain r a)"
  "fst (recreateSwapChain r (set_fence i f a)) = fst (recreateSwapChain r a)"
  "fst (recreateSwapChain r (a\<lparr>framebufferResized := b\<rparr>)) = fst (recreateSwapChain r a)"
  by (rule recreateSwapChain_status)+


lemma recreateSwapChain_resized:
  "framebufferResized a = framebufferResized b \<Longrightarrow>
   framebufferResized (snd (recreateSwapChain r a)) =
   framebufferResized (snd (recreateSwapChain r b))"
  using waitWhileMinimised_resized
          [of "record_call RecreateSwapChain a" "record_call RecreateSwapChain b"
              "framebufferSize r" "minimisedTurns r"]
  by (simp add: recreateSwapChain_snd)

lemma recreateSwapChain_resized_simps [simp]:
  "framebufferResized (snd (recreateSwapChain r (record_call c a))) =
     framebufferResized (snd (recreateSwapChain r a))"
  "framebufferResized (snd (recreateSwapChain r (set_fence i f a))) =
     framebufferResized (snd (recreateSwapChain r a))"
  by (rule recreateSwapChain_resized, simp)+

lemma after_recreate:
  "(case p of (Returned, a7) \<Rightarrow> (Returned, f a7) | (ended, a7) \<Rightarrow> (ended, a7)) =
     (if fst p = Returned then (Returned, f (snd p)) else p)"
proof -
  obtain st a7 where p: "p = (st, a7)" by (cases p)
  show ?thesis unfolding p by (cases st) simp_all
qed

lemma frame_calls_eq:
  "frame_calls r a =
     (let slot = unat (currentFrame a) in
      WaitForFences slot #
      (if \<not> wait_returns a then []
       else AcquireNextImage slot #
         (if acquireResult r = VK_ERROR_OUT_OF_DATE_KHR then [RecreateSwapChain]
          else if \<not> acquired r then []
          else ResetFences slot # GetCommandBuffers (imageIndex r) # QueueSubmit slot #
            (if submitResult r \<noteq> VK_SUCCESS then []
             else QueuePresent slot (imageIndex r) #
               (if must_recreate r a then [RecreateSwapChain] else [])))))"
  unfolding frame_calls_def drawFrame_def wait_returns_def acquired_def must_recreate_def
    after_recreate Let_def
  by (cases "fence_at a (unat (currentFrame a))") (simp_all)

lemma calls_drawFrame: "calls (snd (drawFrame r a)) = calls a @ frame_calls r a"
  unfolding frame_calls_def drawFrame_def after_recreate Let_def
  by (cases "fence_at a (unat (currentFrame a))") (simp_all)

lemma status_drawFrame:
  "fst (drawFrame r a) =
     (case fence_at a (unat (currentFrame a)) of
        NullFence \<Rightarrow> Undefined
      | Unsignaled \<Rightarrow> Blocked
      | _ \<Rightarrow>
        (if acquireResult r = VK_ERROR_OUT_OF_DATE_KHR
         then fst (recreateSwapChain (recreation r) a)
         else if \<not> acquired r
         then Thrown (runtime_error ''Failed to acquire swap chain image!'')
         else if submitResult r \<noteq> VK_SUCCESS
         then Thrown (runtime_error ''Failed to submit draw command buffer!'')
         else if must_recreate r a then fst (recreateSwapChain (recreation r) a)
         else if presentResult r \<noteq> VK_SUCCESS
         then Thrown (runtime_error ''Failed to present swap chain image!'')
         else Returned))"
  unfolding drawFrame_def acquired_def must_recreate_def after_recreate Let_def
  by (cases "fence_at a (unat (currentFrame a))") (simp_all)

lemma currentFrame_drawFrame:
  "currentFrame (snd (drawFrame r a)) =
     (if wait_returns a \<and> acquired r \<and> submitResult r = VK_SUCCESS \<and>
         (if must_recreate r a then fst (recreateSwapChain (recreation r) a) = Returned
          else presentResult r = VK_SUCCESS)
      then (currentFrame a + 1) mod 2 else currentFrame a)"
  unfolding drawFrame_def acquired_def must_recreate_def after_recreate Let_def
    wait_returns_def MAX_NB_FRAMES_IN_FLIGHT_def
  by (cases "fence_at a (unat (currentFrame a))") simp_all

lemma resized_drawFrame:
  "framebufferResized (snd (drawFrame r a)) =
     (if wait_returns a \<and> acquireResult r = VK_ERROR_OUT_OF_DATE_KHR
      then framebufferResized (snd (recreateSwapChain (recreation r) a))
      else if wait_returns a \<and> acquired r \<and> submitResult r = VK_SUCCESS \<and> must_recreate r a
      then framebufferResized
             (snd (recreateSwapChain (recreation r) (a\<lparr>framebufferResized := False\<rparr>)))
      else framebufferResized a)"
  unfolding drawFrame_def acquired_def must_recreate_def after_recreate Let_def
    wait_returns_def
  by (cases "fence_at a (unat (currentFrame a))") simp_all

lemma fences_drawFrame:
  "inFlightFences (snd (drawFrame r a)) =
     (if \<not> wait_returns a then inFlightFences a
      else (inFlightFences a)[unat (currentFrame a) :=
        (if \<not> acquired r then Signaled
         else if submitResult r = VK_SUCCESS then Pending else Unsignaled)])"
  unfolding drawFrame_def acquired_def must_recreate_def after_recreate Let_def
    wait_returns_def vkResetFences_def vkQueueSubmit_def
  by (cases "fence_at a (unat (currentFrame a))")
     (simp_all, auto simp: fence_at_def split: if_splits)



lemma length_resize [simp]: "length (resize n x xs) = n"
  by (simp add: resize_def)


lemma unat_next_frame:
  "unat ((w + 1) mod 2 :: uint32_t) = (unat w + 1) mod 2"
  by (simp add: unat_mod unat_word_ariths mod_mod_cancel)












lemma example_frame_simps:
  "calls example_frame = []" "currentFrame example_frame = 0"
  "framebufferResized example_frame = False"
  "inFlightFences example_frame = [Signaled, Signaled]"
  "commandBufferList example_frame = []"
  by (simp_all add: example_frame_def Application_init_def)

lemma fence_at_example_frame: "fence_at example_frame 0 = Signaled"
  by (simp add: fence_at_def example_frame_simps)



lemma head_frame_calls:
  "\<exists>rest. calls (snd (drawFrame r a)) = calls a @ WaitForFences (unat (currentFrame a)) # rest"
  by (simp add: calls_drawFrame frame_calls_eq Let_def)



lemma recreateSwapChain_ok [simp]: "fst (recreateSwapChain recreation_ok a) = Returned"
  by (simp add: recreateSwapChain_fst recreation_ok_def)

lemma waitWhileMinimised_sized:
  assumes "fst reported \<noteq> 0" and "snd reported \<noteq> 0"
  shows "waitWhileMinimised reported turns a = (Returned, a)"
proof (cases turns)
  case Nil
  then show ?thesis using assms by simp
next
  case (Cons t rest)
  obtain reported' resized where t: "t = (reported', resized)" by (cases t)
  show ?thesis using assms by (simp add: Cons t)
qed

lemma recreateSwapChain_sized:
  assumes "fst (framebufferSize r) \<noteq> 0" and "snd (framebufferSize r) \<noteq> 0"
  shows "framebufferResized (snd (recreateSwapChain r a)) = framebufferResized a"
  by (simp add: recreateSwapChain_snd waitWhileMinimised_sized [OF assms])



text \<open>
  Claim C1. In a frame whose fence wait returns and whose acquire call answers
  \<^verbatim>\<open>VK_ERROR_OUT_OF_DATE_KHR\<close>, \<^verbatim>\<open>drawFrame\<close> makes exactly three calls: the wait, the
  acquire and one \<^verbatim>\<open>recreateSwapChain\<close>. No fence reset, no submit and no present is
  made, \<^verbatim>\<open>currentFrame\<close> keeps its value and the fence of the slot is signaled.
  \<^verbatim>\<open>drawFrame\<close> ends as that one recreation ends, whether it returns, throws or stays in
  its loop. When the recreation returns, \<^verbatim>\<open>drawFrame\<close> returns, and whatever the next
  frame is answered, it starts by waiting and acquiring on the same slot.
\<close>

theorem drawFrame_acquire_out_of_date:
  assumes "acquireResult r = VK_ERROR_OUT_OF_DATE_KHR"
    and "fence_at a (unat (currentFrame a)) = Signaled \<or>
         fence_at a (unat (currentFrame a)) = Pending"
  shows "calls (snd (drawFrame r a)) =
           calls a @ [WaitForFences (unat (currentFrame a)),
                      AcquireNextImage (unat (currentFrame a)), RecreateSwapChain] \<and>
         currentFrame (snd (drawFrame r a)) = currentFrame a \<and>
         fence_at (snd (drawFrame r a)) (unat (currentFrame a)) = Signaled \<and>
         drawFrame r a =
           recreateSwapChain (recreation r)
             (record_call (AcquireNextImage (unat (currentFrame a)))
                (set_fence (unat (currentFrame a)) Signaled
                   (record_call (WaitForFences (unat (currentFrame a))) a))) \<and>
         fst (drawFrame r a) = fst (recreateSwapChain (recreation r) a) \<and>
         (fst (recreateSwapChain (recreation r) a) = Returned \<longrightarrow>
            fst (drawFrame r a) = Returned \<and>
            (\<forall>r'. \<exists>rest. calls (snd (drawFrame r' (snd (drawFrame r a)))) =
               calls (snd (drawFrame r a)) @
                 WaitForFences (unat (currentFrame a)) #
                 AcquireNextImage (unat (currentFrame a)) # rest))"
proof -
  let ?a' = "snd (drawFrame r a)"
  have w: "wait_returns a" using assms(2) by (simp add: wait_returns_def)
  have na: "\<not> acquired r" using assms(1) by (simp add: acquired_def)
  have st: "fst (drawFrame r a) = fst (recreateSwapChain (recreation r) a)"
    using assms by (auto simp: status_drawFrame)
  have eq: "drawFrame r a =
           recreateSwapChain (recreation r)
             (record_call (AcquireNextImage (unat (currentFrame a)))
                (set_fence (unat (currentFrame a)) Signaled
                   (record_call (WaitForFences (unat (currentFrame a))) a)))"
    using assms by (auto simp: drawFrame_def Let_def)
  have cs: "calls ?a' = calls a @ [WaitForFences (unat (currentFrame a)),
                      AcquireNextImage (unat (currentFrame a)), RecreateSwapChain]"
    using assms(1) w by (simp add: calls_drawFrame frame_calls_eq Let_def)
  have cf: "currentFrame ?a' = currentFrame a"
    using na by (simp add: currentFrame_drawFrame)
  have fe: "fence_at ?a' (unat (currentFrame a)) = Signaled"
    using assms(2) w na by (auto simp: fence_at_def fences_drawFrame split: if_splits)
  have w': "wait_returns ?a'"
    using fe cf by (simp add: wait_returns_def)
  have nx: "\<forall>r'. \<exists>rest. calls (snd (drawFrame r' ?a')) =
            calls ?a' @ WaitForFences (unat (currentFrame a)) #
              AcquireNextImage (unat (currentFrame a)) # rest"
    using w' cf by (simp add: calls_drawFrame [of _ ?a'] frame_calls_eq [of _ ?a'] Let_def)
  show ?thesis using st eq cs cf fe nx by simp
qed

theorem drawFrame_acquire_out_of_date_witness:
  "fence_at example_frame (unat (currentFrame example_frame)) = Signaled \<and>
   fst (drawFrame (frame_ok\<lparr>acquireResult := VK_ERROR_OUT_OF_DATE_KHR\<rparr>) example_frame) =
     Returned \<and>
   calls (snd (drawFrame (frame_ok\<lparr>acquireResult := VK_ERROR_OUT_OF_DATE_KHR\<rparr>)
                 example_frame)) =
     [WaitForFences 0, AcquireNextImage 0, RecreateSwapChain] \<and>
   currentFrame (snd (drawFrame (frame_ok\<lparr>acquireResult := VK_ERROR_OUT_OF_DATE_KHR\<rparr>)
                        example_frame)) = 0"
proof -
  let ?r = "frame_ok\<lparr>acquireResult := VK_ERROR_OUT_OF_DATE_KHR\<rparr>"
  have h: "acquireResult ?r = VK_ERROR_OUT_OF_DATE_KHR" by simp
  have k: "recreation ?r = recreation_ok" by (simp add: frame_ok_def)
  have f: "fence_at example_frame (unat (currentFrame example_frame)) = Signaled"
    by (simp add: example_frame_simps fence_at_example_frame)
  show ?thesis
    using drawFrame_acquire_out_of_date [OF h, of example_frame] f
    by (simp add: k example_frame_simps)
qed



text \<open>
  Claim C2, as stated, does not hold of every frame in which the resize flag is set or
  the present call answers a stale code. Three frames on the application right after
  \<^verbatim>\<open>createSyncObjects\<close>. With the flag set and the acquire call answering
  \<^verbatim>\<open>VK_ERROR_OUT_OF_DATE_KHR\<close>, no present call is made, the flag stays set and the slot
  index stays 0. With the present call answering \<^verbatim>\<open>VK_SUBOPTIMAL_KHR\<close> and
  \<^verbatim>\<open>createSwapChain\<close> throwing during the recreation, \<^verbatim>\<open>drawFrame\<close> throws and the slot
  index stays 0. With the present call answering \<^verbatim>\<open>VK_ERROR_OUT_OF_DATE_KHR\<close> and the
  recreation waiting on a minimised window whose resize callback runs during
  \<^verbatim>\<open>glfwWaitEvents\<close>, \<^verbatim>\<open>drawFrame\<close> returns with the flag set.
\<close>

theorem drawFrame_present_stale_not_always_cleared_or_advanced:
  "QueuePresent 0 0 \<notin>
     set (calls (snd (drawFrame (frame_ok\<lparr>acquireResult := VK_ERROR_OUT_OF_DATE_KHR\<rparr>)
                        (example_frame\<lparr>framebufferResized := True\<rparr>)))) \<and>
   framebufferResized (snd (drawFrame (frame_ok\<lparr>acquireResult := VK_ERROR_OUT_OF_DATE_KHR\<rparr>)
                              (example_frame\<lparr>framebufferResized := True\<rparr>))) = True \<and>
   currentFrame (snd (drawFrame (frame_ok\<lparr>acquireResult := VK_ERROR_OUT_OF_DATE_KHR\<rparr>)
                        (example_frame\<lparr>framebufferResized := True\<rparr>))) = 0 \<and>
   fst (drawFrame (frame_ok\<lparr>presentResult := VK_SUBOPTIMAL_KHR, recreation := recreation_fails\<rparr>)
          example_frame) = Thrown (runtime_error ''Failed to create swap chain!'') \<and>
   currentFrame
     (snd (drawFrame (frame_ok\<lparr>presentResult := VK_SUBOPTIMAL_KHR, recreation := recreation_fails\<rparr>)
             example_frame)) = 0 \<and>
   fst (drawFrame (frame_ok\<lparr>presentResult := VK_ERROR_OUT_OF_DATE_KHR,
                            recreation := recreation_minimised\<rparr>) example_frame) = Returned \<and>
   framebufferResized
     (snd (drawFrame (frame_ok\<lparr>presentResult := VK_ERROR_OUT_OF_DATE_KHR,
                              recreation := recreation_minimised\<rparr>) example_frame)) = True"
  by (simp add: drawFrame_def example_frame_def Application_init_def fence_at_def
        set_fence_def record_call_def recreateSwapChain_def vkResetFences_def
        vkQueueSubmit_def MAX_NB_FRAMES_IN_FLIGHT_def Let_def
        frame_ok_def recreation_ok_def recreation_fails_def recreation_minimised_def)

text \<open>
  Claim C2, amended. In a frame that reaches the present call (the wait returns, the
  acquire answers success or suboptimal, the submit succeeds), if the present call
  answers suboptimal or out-of-date, or \<^verbatim>\<open>framebufferResized\<close> is set, then \<^verbatim>\<open>drawFrame\<close>
  makes the present call, clears the flag and then calls \<^verbatim>\<open>recreateSwapChain\<close> exactly
  once, as its last call. \<^verbatim>\<open>drawFrame\<close> ends as that recreation ends. The flag after
  the frame is the flag the recreation leaves when it starts with the flag clear: it is
  clear when the window has a size at the first query, and can only be set by the resize
  callback during the recreation's wait. When the recreation returns, \<^verbatim>\<open>drawFrame\<close>
  returns, \<^verbatim>\<open>currentFrame\<close> has advanced by one modulo \<^verbatim>\<open>MAX_NB_FRAMES_IN_FLIGHT\<close>, and
  the next frame appends its calls to this log, so the recreation precedes its acquire.
  When the recreation does not return, \<^verbatim>\<open>currentFrame\<close> keeps its value.
\<close>

theorem drawFrame_present_stale_or_resized:
  assumes "fence_at a (unat (currentFrame a)) = Signaled \<or>
           fence_at a (unat (currentFrame a)) = Pending"
    and "acquireResult r = VK_SUCCESS \<or> acquireResult r = VK_SUBOPTIMAL_KHR"
    and "submitResult r = VK_SUCCESS"
    and "presentResult r = VK_SUBOPTIMAL_KHR \<or> presentResult r = VK_ERROR_OUT_OF_DATE_KHR \<or>
         framebufferResized a"
  shows "calls (snd (drawFrame r a)) =
           calls a @ [WaitForFences (unat (currentFrame a)),
                      AcquireNextImage (unat (currentFrame a)),
                      ResetFences (unat (currentFrame a)),
                      GetCommandBuffers (imageIndex r),
                      QueueSubmit (unat (currentFrame a)),
                      QueuePresent (unat (currentFrame a)) (imageIndex r),
                      RecreateSwapChain] \<and>
         fst (drawFrame r a) = fst (recreateSwapChain (recreation r) a) \<and>
         framebufferResized (snd (drawFrame r a)) =
           framebufferResized
             (snd (recreateSwapChain (recreation r) (a\<lparr>framebufferResized := False\<rparr>))) \<and>
         (fst (framebufferSize (recreation r)) \<noteq> 0 \<and> snd (framebufferSize (recreation r)) \<noteq> 0 \<longrightarrow>
            framebufferResized (snd (drawFrame r a)) = False) \<and>
         (fst (recreateSwapChain (recreation r) a) = Returned \<longrightarrow>
            fst (drawFrame r a) = Returned \<and>
            unat (currentFrame (snd (drawFrame r a))) =
              (unat (currentFrame a) + 1) mod MAX_NB_FRAMES_IN_FLIGHT \<and>
            (\<forall>r'. \<exists>rest. calls (snd (drawFrame r' (snd (drawFrame r a)))) =
               calls (snd (drawFrame r a)) @
                 WaitForFences (unat (currentFrame (snd (drawFrame r a)))) # rest)) \<and>
         (fst (recreateSwapChain (recreation r) a) \<noteq> Returned \<longrightarrow>
            currentFrame (snd (drawFrame r a)) = currentFrame a)"
proof -
  have w: "wait_returns a" using assms(1) by (simp add: wait_returns_def)
  have ac: "acquired r" using assms(2) by (simp add: acquired_def)
  have no: "acquireResult r \<noteq> VK_ERROR_OUT_OF_DATE_KHR" using assms(2) by auto
  have mr: "must_recreate r a" using assms(4) by (auto simp: must_recreate_def)
  have st: "fst (drawFrame r a) = fst (recreateSwapChain (recreation r) a)"
    using assms(1) ac no mr assms(3) by (auto simp: status_drawFrame)
  have cs: "calls (snd (drawFrame r a)) =
           calls a @ [WaitForFences (unat (currentFrame a)),
                      AcquireNextImage (unat (currentFrame a)),
                      ResetFences (unat (currentFrame a)),
                      GetCommandBuffers (imageIndex r),
                      QueueSubmit (unat (currentFrame a)),
                      QueuePresent (unat (currentFrame a)) (imageIndex r),
                      RecreateSwapChain]"
    using w ac no mr assms(3) by (simp add: calls_drawFrame frame_calls_eq Let_def)
  have fl: "framebufferResized (snd (drawFrame r a)) =
           framebufferResized
             (snd (recreateSwapChain (recreation r) (a\<lparr>framebufferResized := False\<rparr>)))"
    using w ac no mr assms(3) by (simp add: resized_drawFrame)
  have sz: "fst (framebufferSize (recreation r)) \<noteq> 0 \<and> snd (framebufferSize (recreation r)) \<noteq> 0 \<longrightarrow>
            framebufferResized (snd (drawFrame r a)) = False"
    unfolding fl by (simp add: recreateSwapChain_sized)
  have cf: "fst (recreateSwapChain (recreation r) a) = Returned \<longrightarrow>
           unat (currentFrame (snd (drawFrame r a))) =
           (unat (currentFrame a) + 1) mod MAX_NB_FRAMES_IN_FLIGHT"
    using w ac mr assms(3)
    by (simp add: currentFrame_drawFrame unat_next_frame MAX_NB_FRAMES_IN_FLIGHT_def)
  have nf: "fst (recreateSwapChain (recreation r) a) \<noteq> Returned \<longrightarrow>
            currentFrame (snd (drawFrame r a)) = currentFrame a"
    using mr by (simp add: currentFrame_drawFrame)
  have rt: "fst (recreateSwapChain (recreation r) a) = Returned \<longrightarrow>
            fst (drawFrame r a) = Returned"
    using st by simp
  have nx: "\<forall>r'. \<exists>rest. calls (snd (drawFrame r' (snd (drawFrame r a)))) =
               calls (snd (drawFrame r a)) @
                 WaitForFences (unat (currentFrame (snd (drawFrame r a)))) # rest"
    using head_frame_calls by blast
  show ?thesis using cs st fl sz rt cf nx nf by blast
qed

theorem drawFrame_present_stale_or_resized_witness:
  "fence_at example_frame (unat (currentFrame example_frame)) = Signaled \<and>
   fst (drawFrame (frame_ok\<lparr>presentResult := VK_SUBOPTIMAL_KHR\<rparr>) example_frame) = Returned \<and>
   calls (snd (drawFrame (frame_ok\<lparr>presentResult := VK_SUBOPTIMAL_KHR\<rparr>) example_frame)) =
     [WaitForFences 0, AcquireNextImage 0, ResetFences 0, GetCommandBuffers 0,
      QueueSubmit 0, QueuePresent 0 0, RecreateSwapChain] \<and>
   framebufferResized
     (snd (drawFrame (frame_ok\<lparr>presentResult := VK_SUBOPTIMAL_KHR\<rparr>) example_frame)) = False \<and>
   unat (currentFrame (snd (drawFrame (frame_ok\<lparr>presentResult := VK_SUBOPTIMAL_KHR\<rparr>)
      example_frame))) = 1 \<and>
   fst (recreateSwapChain recreation_fails example_frame) \<noteq> Returned \<and>
   fst (drawFrame (frame_ok\<lparr>presentResult := VK_SUBOPTIMAL_KHR, recreation := recreation_fails\<rparr>)
          example_frame) = fst (recreateSwapChain recreation_fails example_frame) \<and>
   currentFrame
     (snd (drawFrame (frame_ok\<lparr>presentResult := VK_SUBOPTIMAL_KHR, recreation := recreation_fails\<rparr>)
             example_frame)) = 0"
proof -
  let ?r = "frame_ok\<lparr>presentResult := VK_SUBOPTIMAL_KHR\<rparr>"
  let ?q = "frame_ok\<lparr>presentResult := VK_SUBOPTIMAL_KHR, recreation := recreation_fails\<rparr>"
  have k: "recreation ?r = recreation_ok" "acquireResult ?r = VK_SUCCESS"
    "submitResult ?r = VK_SUCCESS" "presentResult ?r = VK_SUBOPTIMAL_KHR" "imageIndex ?r = 0"
    by (simp_all add: frame_ok_def)
  have l: "recreation ?q = recreation_fails" "acquireResult ?q = VK_SUCCESS"
    "submitResult ?q = VK_SUCCESS" "presentResult ?q = VK_SUBOPTIMAL_KHR" "imageIndex ?q = 0"
    by (simp_all add: frame_ok_def)
  have z: "fst (framebufferSize recreation_ok) \<noteq> 0 \<and> snd (framebufferSize recreation_ok) \<noteq> 0"
    by (simp add: recreation_ok_def)
  have n: "fst (recreateSwapChain recreation_fails example_frame) \<noteq> Returned"
    by (simp add: recreateSwapChain_fst recreation_fails_def recreation_ok_def)
  have 1: "fst (drawFrame ?r example_frame) = Returned \<and>
     calls (snd (drawFrame ?r example_frame)) =
       [WaitForFences 0, AcquireNextImage 0, ResetFences 0, GetCommandBuffers 0,
        QueueSubmit 0, QueuePresent 0 0, RecreateSwapChain] \<and>
     framebufferResized (snd (drawFrame ?r example_frame)) = False \<and>
     unat (currentFrame (snd (drawFrame ?r example_frame))) = 1"
    using drawFrame_present_stale_or_resized [of example_frame ?r] z
    by (simp add: k example_frame_simps fence_at_example_frame MAX_NB_FRAMES_IN_FLIGHT_def
          recreateSwapChain_sized)
  have 2: "fst (drawFrame ?q example_frame) =
             fst (recreateSwapChain recreation_fails example_frame) \<and>
           currentFrame (snd (drawFrame ?q example_frame)) = 0"
    using drawFrame_present_stale_or_resized [of example_frame ?q] n
    by (simp add: l example_frame_simps fence_at_example_frame)
  have f: "fence_at example_frame (unat (currentFrame example_frame)) = Signaled"
    by (simp add: example_frame_simps fence_at_example_frame)
  show ?thesis using f 1 n 2 by blast
qed



text \<open>
  When \<^verbatim>\<open>drawFrame\<close> throws, given that its fence wait returns: the acquire call
  answers neither success, suboptimal nor out-of-date; or the submit call fails; or the
  present call answers neither success, suboptimal nor out-of-date while
  \<^verbatim>\<open>framebufferResized\<close> is clear; or the frame calls \<^verbatim>\<open>recreateSwapChain\<close> and that
  call throws.
\<close>

lemma drawFrame_throws_iff:
  assumes "wait_returns a"
  shows "(\<exists>e. fst (drawFrame r a) = Thrown e) \<longleftrightarrow>
           (acquireResult r \<noteq> VK_ERROR_OUT_OF_DATE_KHR \<and> \<not> acquired r) \<or>
           (acquired r \<and> submitResult r \<noteq> VK_SUCCESS) \<or>
           (acquired r \<and> submitResult r = VK_SUCCESS \<and> \<not> must_recreate r a \<and>
            presentResult r \<noteq> VK_SUCCESS) \<or>
           ((acquireResult r = VK_ERROR_OUT_OF_DATE_KHR \<or>
             (acquired r \<and> submitResult r = VK_SUCCESS \<and> must_recreate r a)) \<and>
            (\<exists>e. fst (recreateSwapChain (recreation r) a) = Thrown e))"
  using assms
  by (auto simp: status_drawFrame wait_returns_def acquired_def split: VkFence.splits)


text \<open>
  Claim C3. The claim asks for a fatal error whenever the present call answers anything
  but success, suboptimal or out-of-date. One turn of the main loop, started right after
  \<^verbatim>\<open>createSyncObjects\<close>, in which the present call answers \<^verbatim>\<open>VK_ERROR_DEVICE_LOST\<close>:
  when GLFW delivered a resize in that turn, \<^verbatim>\<open>drawFrame\<close> clears the flag, calls
  \<^verbatim>\<open>recreateSwapChain\<close>, which returns, advances the slot and returns, and the loop ends
  normally; when no resize was delivered, the same answers make it throw. The acquire
  branch of the same method throws on every unrecognised code, whatever the flag.
\<close>

theorem mainLoop_present_error_masked_by_resize:
  "mainLoop [\<lparr>resizeDelivered = True, nbCommandBuffers = 1,
              frame = frame_ok\<lparr>presentResult := VK_ERROR_DEVICE_LOST\<rparr>\<rparr>] example_frame =
     (Returned,
      example_frame\<lparr>inFlightFences := [Pending, Signaled], currentFrame := 1,
        commandBufferList := [0],
        calls := [PollEvents, WaitForFences 0, AcquireNextImage 0, ResetFences 0,
                  GetCommandBuffers 0, QueueSubmit 0, QueuePresent 0 0, RecreateSwapChain,
                  DeviceWaitIdle]\<rparr>) \<and>
   mainLoop [\<lparr>resizeDelivered = False, nbCommandBuffers = 1,
              frame = frame_ok\<lparr>presentResult := VK_ERROR_DEVICE_LOST\<rparr>\<rparr>] example_frame =
     (Thrown (runtime_error ''Failed to present swap chain image!''),
      example_frame\<lparr>inFlightFences := [Pending, Signaled],
        commandBufferList := [0],
        calls := [PollEvents, WaitForFences 0, AcquireNextImage 0, ResetFences 0,
                  GetCommandBuffers 0, QueueSubmit 0, QueuePresent 0 0]\<rparr>)"
  by (simp add: drawFrame_def example_frame_def Application_init_def fence_at_def
        set_fence_def record_call_def recreateSwapChain_def vkResetFences_def
        vkQueueSubmit_def MAX_NB_FRAMES_IN_FLIGHT_def Let_def glfwPollEvents_def
        frame_ok_def recreation_ok_def resize_def)








section \<open>Properties of the layout transition helper\<close>

text \<open>
  Claim C8. \<^verbatim>\<open>recordTransitionImageLayoutCommand\<close> returns for exactly two pairs of
  layouts: undefined to transfer-destination, and transfer-destination to
  shader-read-only. When it returns, one pipeline barrier for the given image and
  layouts has been appended to the command buffer. For every other pair it throws
  \<^verbatim>\<open>std::invalid_argument\<close> and the command buffer is as it was: nothing is recorded.
\<close>

theorem recordTransitionImageLayoutCommand_pairs:
  "(fst (recordTransitionImageLayoutCommand cb img fmt old new mips) = Returned \<longleftrightarrow>
      (old = VK_IMAGE_LAYOUT_UNDEFINED \<and> new = VK_IMAGE_LAYOUT_TRANSFER_DST_OPTIMAL) \<or>
      (old = VK_IMAGE_LAYOUT_TRANSFER_DST_OPTIMAL \<and>
       new = VK_IMAGE_LAYOUT_SHADER_READ_ONLY_OPTIMAL)) \<and>
   (fst (recordTransitionImageLayoutCommand cb img fmt old new mips) = Returned \<longrightarrow>
      (\<exists>sourceStage destinationStage barrier.
         snd (recordTransitionImageLayoutCommand cb img fmt old new mips) =
           cb @ [CmdPipelineBarrier sourceStage destinationStage barrier] \<and>
         oldLayout barrier = old \<and> newLayout barrier = new \<and> image barrier = img)) \<and>
   (fst (recordTransitionImageLayoutCommand cb img fmt old new mips) \<noteq> Returned \<longrightarrow>
      recordTransitionImageLayoutCommand cb img fmt old new mips =
        (Thrown (invalid_argument ''Unsupported layout transition!''), cb))"
  by (simp add: recordTransitionImageLayoutCommand_def Let_def)

theorem recordTransitionImageLayoutCommand_pairs_witness:
  "fst (recordTransitionImageLayoutCommand [] 7 VK_FORMAT_R8G8B8A8_SRGB
          VK_IMAGE_LAYOUT_UNDEFINED VK_IMAGE_LAYOUT_TRANSFER_DST_OPTIMAL 1) = Returned \<and>
   recordTransitionImageLayoutCommand [] 7 VK_FORMAT_R8G8B8A8_SRGB
          VK_IMAGE_LAYOUT_UNDEFINED VK_IMAGE_LAYOUT_SHADER_READ_ONLY_OPTIMAL 1 =
     (Thrown (invalid_argument ''Unsupported layout transition!''), [])"
  using recordTransitionImageLayoutCommand_pairs
          [of "[]" 7 VK_FORMAT_R8G8B8A8_SRGB VK_IMAGE_LAYOUT_UNDEFINED
              VK_IMAGE_LAYOUT_TRANSFER_DST_OPTIMAL 1]
        recordTransitionImageLayoutCommand_pairs
          [of "[]" 7 VK_FORMAT_R8G8B8A8_SRGB VK_IMAGE_LAYOUT_UNDEFINED
              VK_IMAGE_LAYOUT_SHADER_READ_ONLY_OPTIMAL 1]
  by simp

section \<open>Properties of the swap extent\<close>

lemma std_clamp_bounds:
  "lo \<le> hi \<Longrightarrow> lo \<le> std_clamp v lo hi \<and> std_clamp v lo hi \<le> hi"
  by (auto simp: std_clamp_def)

lemma std_clamp_uint:
  assumes "lo \<le> hi"
  shows "uint (std_clamp v lo hi) = max (uint lo) (min (uint hi) (uint v))"
  using assms by (auto simp: std_clamp_def word_le_def word_less_def max_def min_def)

lemma UINT32_MAX_greatest: "w \<le> UINT32_MAX"
proof -
  have h: "UINT32_MAX = - 1" by (simp add: UINT32_MAX_def)
  show ?thesis unfolding h by (rule word_n1_ge)
qed

text \<open>
  Claim C7. \<open>UINT32_MAX\<close> is the largest \<^verbatim>\<open>uint32_t\<close>. When the width of the surface's
  current extent is not that value, \<^verbatim>\<open>chooseSwapExtent\<close> returns the current extent.
  Otherwise, for a surface whose minimum extent does not exceed its maximum extent, it
  returns the framebuffer size of the window clamped dimension by dimension: each
  dimension of the result lies between the minimum and the maximum, it is the minimum
  when the framebuffer dimension (cast to \<^verbatim>\<open>uint32_t\<close>) is below it, the maximum when
  the framebuffer dimension is above it, and the framebuffer dimension itself in
  between.
\<close>

theorem chooseSwapExtent_spec:
  "(\<forall>w. w \<le> UINT32_MAX) \<and>
   (width (currentExtent caps) \<noteq> UINT32_MAX \<longrightarrow>
      chooseSwapExtent fb caps = currentExtent caps) \<and>
   (width (currentExtent caps) = UINT32_MAX \<and>
    width (minImageExtent caps) \<le> width (maxImageExtent caps) \<and>
    height (minImageExtent caps) \<le> height (maxImageExtent caps) \<longrightarrow>
      width (minImageExtent caps) \<le> width (chooseSwapExtent fb caps) \<and>
      width (chooseSwapExtent fb caps) \<le> width (maxImageExtent caps) \<and>
      height (minImageExtent caps) \<le> height (chooseSwapExtent fb caps) \<and>
      height (chooseSwapExtent fb caps) \<le> height (maxImageExtent caps) \<and>
      width (chooseSwapExtent fb caps) =
        (if word_of_int (fst fb) < width (minImageExtent caps) then width (minImageExtent caps)
         else if width (maxImageExtent caps) < word_of_int (fst fb)
         then width (maxImageExtent caps)
         else word_of_int (fst fb)) \<and>
      height (chooseSwapExtent fb caps) =
        (if word_of_int (snd fb) < height (minImageExtent caps) then height (minImageExtent caps)
         else if height (maxImageExtent caps) < word_of_int (snd fb)
         then height (maxImageExtent caps)
         else word_of_int (snd fb)) \<and>
      (0 \<le> fst fb \<and> fst fb < 2 ^ 32 \<longrightarrow>
         uint (width (chooseSwapExtent fb caps)) =
           max (uint (width (minImageExtent caps)))
               (min (uint (width (maxImageExtent caps))) (fst fb))) \<and>
      (0 \<le> snd fb \<and> snd fb < 2 ^ 32 \<longrightarrow>
         uint (height (chooseSwapExtent fb caps)) =
           max (uint (height (minImageExtent caps)))
               (min (uint (height (maxImageExtent caps))) (snd fb))))"
proof -
  let ?W = "word_of_int (fst fb) :: uint32_t" and ?H = "word_of_int (snd fb) :: uint32_t"
  have 1: "\<forall>w. w \<le> UINT32_MAX" by (simp add: UINT32_MAX_greatest)
  have 2: "width (currentExtent caps) \<noteq> UINT32_MAX \<longrightarrow>
      chooseSwapExtent fb caps = currentExtent caps"
    by (simp add: chooseSwapExtent_def)
  have 3: ?thesis if s: "width (currentExtent caps) = UINT32_MAX"
    and bw: "width (minImageExtent caps) \<le> width (maxImageExtent caps)"
    and bh: "height (minImageExtent caps) \<le> height (maxImageExtent caps)"
  proof -
    have w: "width (chooseSwapExtent fb caps) =
        std_clamp ?W (width (minImageExtent caps)) (width (maxImageExtent caps))"
      using s by (simp add: chooseSwapExtent_def Let_def)
    have h: "height (chooseSwapExtent fb caps) =
        std_clamp ?H (height (minImageExtent caps)) (height (maxImageExtent caps))"
      using s by (simp add: chooseSwapExtent_def Let_def)
    have uw: "0 \<le> fst fb \<and> fst fb < 2 ^ 32 \<longrightarrow> uint ?W = fst fb"
      by (simp add: uint_word_of_int take_bit_int_eq_self)
    have uh: "0 \<le> snd fb \<and> snd fb < 2 ^ 32 \<longrightarrow> uint ?H = snd fb"
      by (simp add: uint_word_of_int take_bit_int_eq_self)
    have a: "width (minImageExtent caps) \<le> width (chooseSwapExtent fb caps) \<and>
      width (chooseSwapExtent fb caps) \<le> width (maxImageExtent caps)"
      unfolding w using bw by (rule std_clamp_bounds)
    have b: "height (minImageExtent caps) \<le> height (chooseSwapExtent fb caps) \<and>
      height (chooseSwapExtent fb caps) \<le> height (maxImageExtent caps)"
      unfolding h using bh by (rule std_clamp_bounds)
    have c: "width (chooseSwapExtent fb caps) =
        (if ?W < width (minImageExtent caps) then width (minImageExtent caps)
         else if width (maxImageExtent caps) < ?W then width (maxImageExtent caps)
         else ?W)"
      unfolding w by (simp add: std_clamp_def)
    have d: "height (chooseSwapExtent fb caps) =
        (if ?H < height (minImageExtent caps) then height (minImageExtent caps)
         else if height (maxImageExtent caps) < ?H then height (maxImageExtent caps)
         else ?H)"
      unfolding h by (simp add: std_clamp_def)
    have e: "0 \<le> fst fb \<and> fst fb < 2 ^ 32 \<longrightarrow>
         uint (width (chooseSwapExtent fb caps)) =
           max (uint (width (minImageExtent caps)))
               (min (uint (width (maxImageExtent caps))) (fst fb))"
      unfolding w using uw by (simp add: std_clamp_uint [OF bw])
    have f: "0 \<le> snd fb \<and> snd fb < 2 ^ 32 \<longrightarrow>
         uint (height (chooseSwapExtent fb caps)) =
           max (uint (height (minImageExtent caps)))
               (min (uint (height (maxImageExtent caps))) (snd fb))"
      unfolding h using uh by (simp add: std_clamp_uint [OF bh])
    show ?thesis using 1 s a b c d e f by blast
  qed
  show ?thesis
  proof (cases "width (currentExtent caps) = UINT32_MAX \<and>
    width (minImageExtent caps) \<le> width (maxImageExtent caps) \<and>
    height (minImageExtent caps) \<le> height (maxImageExtent caps)")
    case True
    then show ?thesis using 3 by blast
  next
    case False
    then show ?thesis using 1 2 by blast
  qed
qed

theorem chooseSwapExtent_spec_witness:
  "chooseSwapExtent (3000, 100) example_caps = \<lparr>width = 800, height = 600\<rparr> \<and>
   width (chooseSwapExtent (5000, 100)
     (example_caps\<lparr>currentExtent := \<lparr>width = UINT32_MAX, height = UINT32_MAX\<rparr>\<rparr>)) = 4096 \<and>
   height (chooseSwapExtent (5000, 100)
     (example_caps\<lparr>currentExtent := \<lparr>width = UINT32_MAX, height = UINT32_MAX\<rparr>\<rparr>)) = 100"
  using chooseSwapExtent_spec [of example_caps "(3000, 100)"]
        chooseSwapExtent_spec
          [of "example_caps\<lparr>currentExtent := \<lparr>width = UINT32_MAX, height = UINT32_MAX\<rparr>\<rparr>" "(5000, 100)"]
  by (simp add: example_caps_def UINT32_MAX_def)

section \<open>Properties of device selection and device creation\<close>

lemma roles_distinct: "GRAPHICS_QUEUE_FAMILY \<noteq> PRESENTATION_QUEUE_FAMILY"
  by (simp add: GRAPHICS_QUEUE_FAMILY_def PRESENTATION_QUEUE_FAMILY_def)

lemma isComplete_iff:
  assumes "roles_wf indices"
  shows "isComplete indices \<longleftrightarrow>
           GRAPHICS_QUEUE_FAMILY \<in> dom (families indices) \<and>
           PRESENTATION_QUEUE_FAMILY \<in> dom (families indices)"
proof
  assume c: "isComplete indices"
  have fin: "finite {GRAPHICS_QUEUE_FAMILY, PRESENTATION_QUEUE_FAMILY}" by simp
  have sub: "dom (families indices) \<subseteq> {GRAPHICS_QUEUE_FAMILY, PRESENTATION_QUEUE_FAMILY}"
    using assms by (simp add: roles_wf_def)
  have "card (dom (families indices)) = card {GRAPHICS_QUEUE_FAMILY, PRESENTATION_QUEUE_FAMILY}"
    using c assms roles_distinct by (simp add: isComplete_def roles_wf_def)
  then have "dom (families indices) = {GRAPHICS_QUEUE_FAMILY, PRESENTATION_QUEUE_FAMILY}"
    using card_subset_eq [OF fin sub] by simp
  then show "GRAPHICS_QUEUE_FAMILY \<in> dom (families indices) \<and>
           PRESENTATION_QUEUE_FAMILY \<in> dom (families indices)" by simp
next
  assume "GRAPHICS_QUEUE_FAMILY \<in> dom (families indices) \<and>
           PRESENTATION_QUEUE_FAMILY \<in> dom (families indices)"
  then have "dom (families indices) = {GRAPHICS_QUEUE_FAMILY, PRESENTATION_QUEUE_FAMILY}"
    using assms by (auto simp: roles_wf_def)
  then show "isComplete indices"
    using assms roles_distinct by (simp add: isComplete_def roles_wf_def)
qed

lemma findQueueFamilies_loop_wf:
  "roles_wf indices \<Longrightarrow> roles_wf (findQueueFamilies_loop qs i indices)"
  by (induction qs i indices rule: findQueueFamilies_loop.induct)
     (auto simp: Let_def roles_wf_def)

lemma findQueueFamilies_loop_dom:
  assumes "roles_wf indices"
  shows "(GRAPHICS_QUEUE_FAMILY \<in> dom (families (findQueueFamilies_loop qs i indices)) \<and>
          PRESENTATION_QUEUE_FAMILY \<in> dom (families (findQueueFamilies_loop qs i indices))) \<longleftrightarrow>
         (GRAPHICS_QUEUE_FAMILY \<in> dom (families indices) \<or>
            (\<exists>q\<in>set qs. queueFlags q AND VK_QUEUE_GRAPHICS_BIT \<noteq> 0)) \<and>
         (PRESENTATION_QUEUE_FAMILY \<in> dom (families indices) \<or>
            (\<exists>q\<in>set qs. presentationSupport q \<noteq> 0))"
  using assms
proof (induction qs i indices rule: findQueueFamilies_loop.induct)
  case (1 i indices)
  then show ?case by simp
next
  case (2 queueFamily rest i indices)
  define indices1 where "indices1 =
     (if queueFlags queueFamily AND VK_QUEUE_GRAPHICS_BIT \<noteq> 0
      then indices\<lparr>families := (families indices)(GRAPHICS_QUEUE_FAMILY \<mapsto> word_of_int i)\<rparr>
      else indices)"
  define indices2 where "indices2 =
     (if presentationSupport queueFamily \<noteq> 0
      then indices1\<lparr>families := (families indices1)(PRESENTATION_QUEUE_FAMILY \<mapsto> word_of_int i)\<rparr>
      else indices1)"
  have wf2: "roles_wf indices2"
    using "2.prems" by (auto simp: indices1_def indices2_def roles_wf_def)
  have g2: "GRAPHICS_QUEUE_FAMILY \<in> dom (families indices2) \<longleftrightarrow>
              GRAPHICS_QUEUE_FAMILY \<in> dom (families indices) \<or>
              queueFlags queueFamily AND VK_QUEUE_GRAPHICS_BIT \<noteq> 0"
    using roles_distinct by (auto simp: indices1_def indices2_def)
  have p2: "PRESENTATION_QUEUE_FAMILY \<in> dom (families indices2) \<longleftrightarrow>
              PRESENTATION_QUEUE_FAMILY \<in> dom (families indices) \<or>
              presentationSupport queueFamily \<noteq> 0"
    using roles_distinct by (auto simp: indices1_def indices2_def)
  have step: "findQueueFamilies_loop (queueFamily # rest) i indices =
      (if isComplete indices2 then indices2
       else findQueueFamilies_loop rest (i + 1) indices2)"
    unfolding indices1_def indices2_def
    by (simp only: findQueueFamilies_loop.simps Let_def)
  show ?case
  proof (cases "isComplete indices2")
    case True
    then have "findQueueFamilies_loop (queueFamily # rest) i indices = indices2"
      by (simp only: step if_True)
    moreover have "GRAPHICS_QUEUE_FAMILY \<in> dom (families indices2) \<and>
           PRESENTATION_QUEUE_FAMILY \<in> dom (families indices2)"
      using True isComplete_iff [OF wf2] by simp
    ultimately show ?thesis using g2 p2 by auto
  next
    case False
    then have e: "findQueueFamilies_loop (queueFamily # rest) i indices =
                  findQueueFamilies_loop rest (i + 1) indices2"
      by (simp only: step if_False)
    have "(GRAPHICS_QUEUE_FAMILY \<in> dom (families (findQueueFamilies_loop rest (i + 1) indices2)) \<and>
           PRESENTATION_QUEUE_FAMILY \<in> dom (families (findQueueFamilies_loop rest (i + 1) indices2))) \<longleftrightarrow>
         (GRAPHICS_QUEUE_FAMILY \<in> dom (families indices2) \<or>
            (\<exists>q\<in>set rest. queueFlags q AND VK_QUEUE_GRAPHICS_BIT \<noteq> 0)) \<and>
         (PRESENTATION_QUEUE_FAMILY \<in> dom (families indices2) \<or>
            (\<exists>q\<in>set rest. presentationSupport q \<noteq> 0))"
      using "2.IH" [OF indices1_def indices2_def False wf2] .
    then show ?thesis unfolding e using g2 p2 by auto
  qed
qed

lemma isComplete_findQueueFamilies:
  "isComplete (findQueueFamilies dev) \<longleftrightarrow>
     (\<exists>q\<in>set (queueFamilyProperties dev). queueFlags q AND VK_QUEUE_GRAPHICS_BIT \<noteq> 0) \<and>
     (\<exists>q\<in>set (queueFamilyProperties dev). presentationSupport q \<noteq> 0)"
proof -
  have wf: "roles_wf \<lparr>nbRequiredFamilies = 2, families = Map.empty\<rparr>"
    by (simp add: roles_wf_def)
  show ?thesis
    unfolding findQueueFamilies_def
    using isComplete_iff [OF findQueueFamilies_loop_wf [OF wf]]
          findQueueFamilies_loop_dom [OF wf]
    by simp
qed

lemma portability_loop_set:
  "set (portability_loop available extensions) \<subseteq> set extensions \<union> set available \<and>
   set extensions \<subseteq> set (portability_loop available extensions)"
  by (induction available) auto

lemma fold_erase: "fold (\<lambda>e S. S - {e}) xs S = S - set xs"
  by (induction xs arbitrary: S) auto

lemma checkDeviceExtensionSupport_iff:
  "checkDeviceExtensionSupport a dev \<longleftrightarrow>
     set (deviceExtensions (config a)) \<subseteq> set (extensionProperties dev)"
  using portability_loop_set [of "extensionProperties dev" "deviceExtensions (config a)"]
  by (auto simp: checkDeviceExtensionSupport_def getRequiredDeviceExtensions_def fold_erase)

lemma std_set_pair:
  "std_set [g, p] = (if g = p then [g] else if p \<le> g then [p, g] else [g, p])"
  by (simp add: std_set_def insort_insert_key_def)

lemma families_example_device:
  "families (findQueueFamilies example_device) =
     [GRAPHICS_QUEUE_FAMILY \<mapsto> 0, PRESENTATION_QUEUE_FAMILY \<mapsto> 0]"
  by (simp add: findQueueFamilies_def example_device_def Let_def VK_QUEUE_GRAPHICS_BIT_def)

lemma families_split_device:
  "families (findQueueFamilies split_device) =
     [GRAPHICS_QUEUE_FAMILY \<mapsto> 0, PRESENTATION_QUEUE_FAMILY \<mapsto> 1]"
  by (simp add: findQueueFamilies_def split_device_def example_device_def Let_def
        VK_QUEUE_GRAPHICS_BIT_def isComplete_def roles_distinct
        GRAPHICS_QUEUE_FAMILY_def PRESENTATION_QUEUE_FAMILY_def)

lemma compareFeatures_rejects:
  "i < length required \<Longrightarrow> i < length supported \<Longrightarrow> required ! i \<noteq> 0 \<Longrightarrow>
   supported ! i = 0 \<or> \<not> api \<Longrightarrow> \<not> compareFeatures required supported api"
proof (induction required supported api arbitrary: i rule: compareFeatures.induct)
  case (1 r required s supported apiVersionSupported)
  then show ?case by (cases i) auto
qed simp_all

lemma compareFeatures_iff:
  "length required = length supported \<Longrightarrow>
   compareFeatures required supported api \<longleftrightarrow>
     (\<forall>i<length required. required ! i \<noteq> 0 \<longrightarrow> supported ! i \<noteq> 0 \<and> api)"
proof (induction required supported api rule: compareFeatures.induct)
  case (1 r required s supported apiVersionSupported)
  then show ?case by (auto simp: less_Suc_eq_0_disj)
qed simp_all


lemma compareFeatures_flags:
  "compareFeatures required supported api \<longleftrightarrow>
     (\<forall>i. i < length required \<and> i < length supported \<and> required ! i \<noteq> 0 \<longrightarrow>
          supported ! i \<noteq> 0 \<and> api)"
proof (induction required supported api rule: compareFeatures.induct)
  case (1 r required s supported apiVersionSupported)
  have split: "\<And>P. (\<forall>i. P i) \<longleftrightarrow> P 0 \<and> (\<forall>i. P (Suc i))"
    by (metis not0_implies_Suc)
  show ?case
    by (subst split) (use 1 in auto)
qed simp_all

lemma compareFeatures_base:
  "compareFeatures required supported True \<longleftrightarrow>
     (\<forall>i. i < length required \<and> i < length supported \<and> required ! i \<noteq> 0 \<longrightarrow>
          supported ! i \<noteq> 0)"
  by (simp add: compareFeatures_flags)

lemma isDeviceSuitable_iff:
  "isDeviceSuitable a dev \<longleftrightarrow>
     (\<exists>q\<in>set (queueFamilyProperties dev). queueFlags q AND VK_QUEUE_GRAPHICS_BIT \<noteq> 0) \<and>
     (\<exists>q\<in>set (queueFamilyProperties dev). presentationSupport q \<noteq> 0) \<and>
     set (deviceExtensions (config a)) \<subseteq> set (extensionProperties dev) \<and>
     surfaceFormats dev \<noteq> [] \<and> surfacePresentModes dev \<noteq> [] \<and>
     (if vulkanVersion (config a) = VK_API_VERSION_1_0
      then compareFeatures (features10 (config a)) (deviceFeatures dev) True
      else compareFeatures (features10 (config a)) (deviceFeatures dev) True \<and>
           compareFeatures (features11 (config a)) (deviceFeatures11 dev)
             (VK_API_VERSION_1_1 \<le> apiVersion dev) \<and>
           compareFeatures (features12 (config a)) (deviceFeatures12 dev)
             (VK_API_VERSION_1_2 \<le> apiVersion dev) \<and>
           compareFeatures (features13 (config a)) (deviceFeatures13 dev)
             (VK_API_VERSION_1_3 \<le> apiVersion dev))"
  unfolding isDeviceSuitable_def Let_def isComplete_findQueueFamilies
    checkDeviceExtensionSupport_iff querySwapChainSupport_def
  by auto

lemma pickPhysicalDevice_loop_none:
  "\<forall>d\<in>set devices. \<not> isDeviceSuitable a d \<Longrightarrow> pickPhysicalDevice_loop devices a = a"
  by (induction devices) auto

lemma pickPhysicalDevice_loop_first:
  "i < length devices \<Longrightarrow> isDeviceSuitable a (devices ! i) \<Longrightarrow>
   \<forall>j<i. \<not> isDeviceSuitable a (devices ! j) \<Longrightarrow>
   pickPhysicalDevice_loop devices a =
     a\<lparr>physicalDevice := Some (devices ! i),
       msaaNbMaxSamples := getMaxUsableSampleCount (devices ! i)\<rparr>"
proof (induction devices arbitrary: i)
  case Nil
  then show ?case by simp
next
  case (Cons d ds)
  show ?case
  proof (cases i)
    case 0
    then show ?thesis using Cons.prems by simp
  next
    case (Suc k)
    have nd: "\<not> isDeviceSuitable a d" using Cons.prems(3) Suc by auto
    have "pickPhysicalDevice_loop ds a =
          a\<lparr>physicalDevice := Some (ds ! k),
            msaaNbMaxSamples := getMaxUsableSampleCount (ds ! k)\<rparr>"
      using Cons.prems Suc by (intro Cons.IH) auto
    then show ?thesis using nd Suc by simp
  qed
qed

lemma chooseSwapSurfaceFormat_Some:
  "availableFormats \<noteq> [] \<Longrightarrow> \<exists>f. chooseSwapSurfaceFormat availableFormats = Some f"
  by (cases availableFormats)
     (auto simp: chooseSwapSurfaceFormat_def split: option.splits)

lemma example_device_base:
  "(\<exists>q\<in>set (queueFamilyProperties example_device). queueFlags q AND VK_QUEUE_GRAPHICS_BIT \<noteq> 0)"
  "(\<exists>q\<in>set (queueFamilyProperties example_device). presentationSupport q \<noteq> 0)"
  "set (deviceExtensions example_config) \<subseteq> set (extensionProperties example_device)"
  "surfaceFormats example_device \<noteq> []" "surfacePresentModes example_device \<noteq> []"
  by (simp_all add: example_device_def example_config_def VK_QUEUE_GRAPHICS_BIT_def)

lemma version_order:
  "VK_API_VERSION_1_0 < VK_API_VERSION_1_1" "VK_API_VERSION_1_1 < VK_API_VERSION_1_2"
  "VK_API_VERSION_1_2 < VK_API_VERSION_1_3"
  by (simp_all add: VK_API_VERSION_1_0_def VK_API_VERSION_1_1_def VK_API_VERSION_1_2_def
        VK_API_VERSION_1_3_def)

lemma isDeviceSuitable_flags:
  "isDeviceSuitable a dev \<longleftrightarrow>
     (\<exists>q\<in>set (queueFamilyProperties dev). queueFlags q AND VK_QUEUE_GRAPHICS_BIT \<noteq> 0) \<and>
     (\<exists>q\<in>set (queueFamilyProperties dev). presentationSupport q \<noteq> 0) \<and>
     set (deviceExtensions (config a)) \<subseteq> set (extensionProperties dev) \<and>
     surfaceFormats dev \<noteq> [] \<and> surfacePresentModes dev \<noteq> [] \<and>
     (\<forall>i. i < length (features10 (config a)) \<and> i < length (deviceFeatures dev) \<and>
          features10 (config a) ! i \<noteq> 0 \<longrightarrow> deviceFeatures dev ! i \<noteq> 0) \<and>
     (vulkanVersion (config a) \<noteq> VK_API_VERSION_1_0 \<longrightarrow>
        (\<forall>i. i < length (features11 (config a)) \<and> i < length (deviceFeatures11 dev) \<and>
             features11 (config a) ! i \<noteq> 0 \<longrightarrow>
             deviceFeatures11 dev ! i \<noteq> 0 \<and> VK_API_VERSION_1_1 \<le> apiVersion dev) \<and>
        (\<forall>i. i < length (features12 (config a)) \<and> i < length (deviceFeatures12 dev) \<and>
             features12 (config a) ! i \<noteq> 0 \<longrightarrow>
             deviceFeatures12 dev ! i \<noteq> 0 \<and> VK_API_VERSION_1_2 \<le> apiVersion dev) \<and>
        (\<forall>i. i < length (features13 (config a)) \<and> i < length (deviceFeatures13 dev) \<and>
             features13 (config a) ! i \<noteq> 0 \<longrightarrow>
             deviceFeatures13 dev ! i \<noteq> 0 \<and> VK_API_VERSION_1_3 \<le> apiVersion dev))"
  unfolding isDeviceSuitable_iff
    compareFeatures_base [symmetric] compareFeatures_flags [symmetric]
  by (cases "vulkanVersion (config a) = VK_API_VERSION_1_0") simp_all

text \<open>
  Claim C6. The queue-create entries of the structure \<^verbatim>\<open>createLogicalDevice\<close> hands to
  \<^verbatim>\<open>vkCreateDevice\<close> name pairwise different family indices, and the indices named are
  exactly the graphics and the presentation family: one entry when the two roles have
  the same family index, two when they differ. Every entry asks for one queue. When
  \<^verbatim>\<open>vkCreateDevice\<close> succeeds, the device is the one created from that structure, and
  the two queues are queue 0 of the two families.
\<close>

theorem createLogicalDevice_unique_queue_families:
  "distinct (map queueFamilyIndex (pQueueCreateInfos (deviceCreateInfo v a dev))) \<and>
   set (map queueFamilyIndex (pQueueCreateInfos (deviceCreateInfo v a dev))) =
     {map_at (families (findQueueFamilies dev)) GRAPHICS_QUEUE_FAMILY,
      map_at (families (findQueueFamilies dev)) PRESENTATION_QUEUE_FAMILY} \<and>
   length (pQueueCreateInfos (deviceCreateInfo v a dev)) =
     (if map_at (families (findQueueFamilies dev)) GRAPHICS_QUEUE_FAMILY =
         map_at (families (findQueueFamilies dev)) PRESENTATION_QUEUE_FAMILY
      then 1 else 2) \<and>
   (\<forall>info\<in>set (pQueueCreateInfos (deviceCreateInfo v a dev)). queueCount info = 1) \<and>
   (physicalDevice a = Some dev \<longrightarrow>
      createLogicalDevice v VK_SUCCESS a =
        (Returned,
         a\<lparr>device := Some (deviceCreateInfo v a dev),
           graphicsQueue :=
             Some (map_at (families (findQueueFamilies dev)) GRAPHICS_QUEUE_FAMILY, 0),
           presentationQueue :=
             Some (map_at (families (findQueueFamilies dev)) PRESENTATION_QUEUE_FAMILY, 0)\<rparr>))"
  by (auto simp: deviceCreateInfo_def createLogicalDevice_def Let_def std_set_pair comp_def)

theorem createLogicalDevice_unique_queue_families_witness:
  "map queueFamilyIndex
     (pQueueCreateInfos (deviceCreateInfo False (Application_init example_config) example_device)) = [0] \<and>
   length (pQueueCreateInfos
     (deviceCreateInfo False (Application_init example_config) split_device)) = 2"
proof -
  note t1 = createLogicalDevice_unique_queue_families
              [of False "Application_init example_config" example_device]
  note t2 = createLogicalDevice_unique_queue_families
              [of False "Application_init example_config" split_device]
  have m: "map_at (families (findQueueFamilies example_device)) GRAPHICS_QUEUE_FAMILY = 0"
    "map_at (families (findQueueFamilies example_device)) PRESENTATION_QUEUE_FAMILY = 0"
    "map_at (families (findQueueFamilies split_device)) GRAPHICS_QUEUE_FAMILY = 0"
    "map_at (families (findQueueFamilies split_device)) PRESENTATION_QUEUE_FAMILY = 1"
    by (simp_all add: families_example_device families_split_device map_at_def roles_distinct)
  have 1: "map queueFamilyIndex (pQueueCreateInfos
      (deviceCreateInfo False (Application_init example_config) example_device)) = [0]"
    using t1 unfolding m
    by (cases "map queueFamilyIndex (pQueueCreateInfos
      (deviceCreateInfo False (Application_init example_config) example_device))") auto
  have 2: "length (pQueueCreateInfos
     (deviceCreateInfo False (Application_init example_config) split_device)) = 2"
    using t2 unfolding m by simp
  show ?thesis using 1 2 by (rule conjI)
qed

text \<open>
  Claim C5, as stated, fails where the application targets Vulkan 1.0. The configuration
  requires flag 1 of the 1.1 tier. The first device enumerated does not report that flag,
  the second reports it and satisfies every condition of the claim.
  \<^verbatim>\<open>pickPhysicalDevice\<close> returns with the first device selected.
\<close>

theorem pickPhysicalDevice_selects_device_without_required_feature:
  "physicalDevice (Application_init legacy_config) = None \<and>
   features11 (config (Application_init legacy_config)) ! 1 \<noteq> 0 \<and>
   deviceFeatures11 old_device ! 1 = 0 \<and>
   deviceFeatures11 capable_device ! 1 \<noteq> 0 \<and>
   isDeviceSuitable (Application_init legacy_config) capable_device \<and>
   fst (pickPhysicalDevice [old_device, capable_device] (Application_init legacy_config)) =
     Returned \<and>
   physicalDevice
     (snd (pickPhysicalDevice [old_device, capable_device] (Application_init legacy_config))) =
     Some old_device"
proof -
  let ?a = "Application_init legacy_config"
  have s: "isDeviceSuitable ?a old_device"
    using example_device_base version_order
    by (simp add: isDeviceSuitable_iff Application_init_def legacy_config_def old_device_def
          example_config_def example_device_def)
  have c: "isDeviceSuitable ?a capable_device"
    using example_device_base version_order
    by (simp add: isDeviceSuitable_iff Application_init_def legacy_config_def
          capable_device_def example_config_def example_device_def)
  have f: "chooseSwapSurfaceFormat (surfaceFormats old_device) =
             Some \<lparr>format = VK_FORMAT_B8G8R8A8_SRGB,
                   colorSpace = VK_COLOR_SPACE_SRGB_NONLINEAR_KHR\<rparr>"
    by (simp add: chooseSwapSurfaceFormat_def old_device_def example_device_def)
  have p: "fst (pickPhysicalDevice [old_device, capable_device] ?a) = Returned \<and>
           physicalDevice (snd (pickPhysicalDevice [old_device, capable_device] ?a)) =
             Some old_device"
    using s f by (simp add: pickPhysicalDevice_def querySwapChainSupport_def)
  have v: "physicalDevice ?a = None" "features11 (config ?a) ! 1 \<noteq> 0"
    "deviceFeatures11 old_device ! 1 = 0" "deviceFeatures11 capable_device ! 1 \<noteq> 0"
    by (simp_all add: Application_init_def legacy_config_def old_device_def
          capable_device_def example_config_def example_device_def)
  show ?thesis using v c p by simp
qed

text \<open>
  Claim C5, amended. \<^verbatim>\<open>pickPhysicalDevice\<close> is called once, in \<^verbatim>\<open>initVulkan\<close>, while
  \<^verbatim>\<open>physicalDevice\<close> still is \<^verbatim>\<open>VK_NULL_HANDLE\<close>. Then: with no device at all it
  throws; with devices none of which is suitable it throws; and if the device at
  position \<open>i\<close> of the enumeration is suitable while no earlier one is, it returns with
  that device selected. A device is suitable exactly when some queue family has the
  graphics bit, some queue family can present to the surface, every configured device
  extension is among the available ones, the surface has at least one format and one
  presentation mode, the device reports every required flag of the base (1.0) features,
  and, when the configured version is not \<^verbatim>\<open>VK_API_VERSION_1_0\<close>, for each of the tiers
  1.1, 1.2 and 1.3 the device reports every required flag of the tier and its API
  version is at least the version of the tier if any flag of the tier is required.
  When the configured version is \<^verbatim>\<open>VK_API_VERSION_1_0\<close>, the required flags of the tiers
  1.1 to 1.3 are not among the conditions.
\<close>

theorem pickPhysicalDevice_first_suitable:
  assumes "physicalDevice a = None"
  shows
    "(devices = [] \<longrightarrow>
        pickPhysicalDevice devices a =
          (Thrown (runtime_error ''Failed to find GPUs with Vulkan support!''), a)) \<and>
     (devices \<noteq> [] \<and> (\<forall>d\<in>set devices. \<not> isDeviceSuitable a d) \<longrightarrow>
        pickPhysicalDevice devices a =
          (Thrown (runtime_error ''Failed to find a suitable GPU!''), a)) \<and>
     (\<forall>i<length devices.
        isDeviceSuitable a (devices ! i) \<and> (\<forall>j<i. \<not> isDeviceSuitable a (devices ! j)) \<longrightarrow>
        fst (pickPhysicalDevice devices a) = Returned \<and>
        physicalDevice (snd (pickPhysicalDevice devices a)) = Some (devices ! i)) \<and>
     (\<forall>dev. isDeviceSuitable a dev \<longleftrightarrow>
        (\<exists>q\<in>set (queueFamilyProperties dev). queueFlags q AND VK_QUEUE_GRAPHICS_BIT \<noteq> 0) \<and>
        (\<exists>q\<in>set (queueFamilyProperties dev). presentationSupport q \<noteq> 0) \<and>
        set (deviceExtensions (config a)) \<subseteq> set (extensionProperties dev) \<and>
        surfaceFormats dev \<noteq> [] \<and> surfacePresentModes dev \<noteq> [] \<and>
        (\<forall>i. i < length (features10 (config a)) \<and> i < length (deviceFeatures dev) \<and>
             features10 (config a) ! i \<noteq> 0 \<longrightarrow> deviceFeatures dev ! i \<noteq> 0) \<and>
        (vulkanVersion (config a) \<noteq> VK_API_VERSION_1_0 \<longrightarrow>
           (\<forall>i. i < length (features11 (config a)) \<and> i < length (deviceFeatures11 dev) \<and>
                features11 (config a) ! i \<noteq> 0 \<longrightarrow>
                deviceFeatures11 dev ! i \<noteq> 0 \<and> VK_API_VERSION_1_1 \<le> apiVersion dev) \<and>
           (\<forall>i. i < length (features12 (config a)) \<and> i < length (deviceFeatures12 dev) \<and>
                features12 (config a) ! i \<noteq> 0 \<longrightarrow>
                deviceFeatures12 dev ! i \<noteq> 0 \<and> VK_API_VERSION_1_2 \<le> apiVersion dev) \<and>
           (\<forall>i. i < length (features13 (config a)) \<and> i < length (deviceFeatures13 dev) \<and>
                features13 (config a) ! i \<noteq> 0 \<longrightarrow>
                deviceFeatures13 dev ! i \<noteq> 0 \<and> VK_API_VERSION_1_3 \<le> apiVersion dev)))"
proof -
  have 1: "devices = [] \<longrightarrow>
        pickPhysicalDevice devices a =
          (Thrown (runtime_error ''Failed to find GPUs with Vulkan support!''), a)"
    by (simp add: pickPhysicalDevice_def)
  have 2: "devices \<noteq> [] \<and> (\<forall>d\<in>set devices. \<not> isDeviceSuitable a d) \<longrightarrow>
        pickPhysicalDevice devices a =
          (Thrown (runtime_error ''Failed to find a suitable GPU!''), a)"
    using assms by (simp add: pickPhysicalDevice_def pickPhysicalDevice_loop_none)
  have 3: "\<forall>i<length devices.
        isDeviceSuitable a (devices ! i) \<and> (\<forall>j<i. \<not> isDeviceSuitable a (devices ! j)) \<longrightarrow>
        fst (pickPhysicalDevice devices a) = Returned \<and>
        physicalDevice (snd (pickPhysicalDevice devices a)) = Some (devices ! i)"
  proof (intro allI impI)
    fix i
    assume i: "i < length devices"
      and s: "isDeviceSuitable a (devices ! i) \<and> (\<forall>j<i. \<not> isDeviceSuitable a (devices ! j))"
    have l: "pickPhysicalDevice_loop devices a =
       a\<lparr>physicalDevice := Some (devices ! i),
         msaaNbMaxSamples := getMaxUsableSampleCount (devices ! i)\<rparr>"
      using i s by (intro pickPhysicalDevice_loop_first) auto
    have "surfaceFormats (devices ! i) \<noteq> []"
      using s by (simp add: isDeviceSuitable_iff)
    then obtain f where f: "chooseSwapSurfaceFormat (surfaceFormats (devices ! i)) = Some f"
      using chooseSwapSurfaceFormat_Some by blast
    have ne: "devices \<noteq> []" using i by auto
    show "fst (pickPhysicalDevice devices a) = Returned \<and>
        physicalDevice (snd (pickPhysicalDevice devices a)) = Some (devices ! i)"
      using ne l f by (simp add: pickPhysicalDevice_def querySwapChainSupport_def)
  qed
  note 4 = isDeviceSuitable_flags [of a]
  show ?thesis
    apply (intro conjI)
       apply (rule 1)
      apply (rule 2)
     apply (rule 3)
    apply (intro allI)
    apply (rule 4)
    done
qed

theorem pickPhysicalDevice_first_suitable_witness:
  "physicalDevice (Application_init example_config) = None \<and>
   \<not> isDeviceSuitable (Application_init example_config)
       (example_device\<lparr>deviceFeatures := [1, 0, 1]\<rparr>) \<and>
   isDeviceSuitable (Application_init example_config) example_device \<and>
   fst (pickPhysicalDevice
          [example_device\<lparr>deviceFeatures := [1, 0, 1]\<rparr>, example_device, split_device]
          (Application_init example_config)) = Returned \<and>
   physicalDevice (snd (pickPhysicalDevice
          [example_device\<lparr>deviceFeatures := [1, 0, 1]\<rparr>, example_device, split_device]
          (Application_init example_config))) = Some example_device \<and>
   pickPhysicalDevice [example_device\<lparr>deviceFeatures := [1, 0, 1]\<rparr>]
       (Application_init example_config) =
     (Thrown (runtime_error ''Failed to find a suitable GPU!''),
      Application_init example_config) \<and>
   pickPhysicalDevice [] (Application_init example_config) =
     (Thrown (runtime_error ''Failed to find GPUs with Vulkan support!''),
      Application_init example_config) \<and>
   \<not> isDeviceSuitable (Application_init (example_config\<lparr>features11 := [0, 1, 0]\<rparr>))
       example_device \<and>
   physicalDevice (snd (pickPhysicalDevice [example_device, capable_device]
          (Application_init (example_config\<lparr>features11 := [0, 1, 0]\<rparr>)))) =
     Some capable_device"
proof -
  let ?a = "Application_init example_config"
  let ?d0 = "example_device\<lparr>deviceFeatures := [1, 0, 1]\<rparr>"
  let ?ds = "[?d0, example_device, split_device]"
  have n: "physicalDevice ?a = None" by (simp add: Application_init_def)
  note t = pickPhysicalDevice_first_suitable [OF n]
  have c: "config ?a = example_config" by (simp add: Application_init_def)
  have s0: "\<not> isDeviceSuitable ?a ?d0"
    unfolding t [of "[]", THEN conjunct2, THEN conjunct2, THEN conjunct2, THEN spec, of ?d0]
      compareFeatures_base [symmetric] compareFeatures_flags [symmetric]
    by (simp add: Application_init_def example_config_def example_device_def)
  have s1: "isDeviceSuitable ?a example_device"
    unfolding t [of "[]", THEN conjunct2, THEN conjunct2, THEN conjunct2, THEN spec,
                 of example_device]
      compareFeatures_base [symmetric] compareFeatures_flags [symmetric]
    using example_device_base version_order
    by (simp add: c) (simp add: example_config_def example_device_def)
  have "1 < length ?ds \<and> isDeviceSuitable ?a (?ds ! 1) \<and>
        (\<forall>j<1. \<not> isDeviceSuitable ?a (?ds ! j))"
    using s0 s1 by simp
  then have p: "fst (pickPhysicalDevice ?ds ?a) = Returned \<and>
     physicalDevice (snd (pickPhysicalDevice ?ds ?a)) = Some (?ds ! 1)"
    using t [of ?ds] by blast
  have "[?d0] \<noteq> [] \<and> (\<forall>d\<in>set [?d0]. \<not> isDeviceSuitable ?a d)"
    using s0 by simp
  then have u: "pickPhysicalDevice [?d0] ?a =
     (Thrown (runtime_error ''Failed to find a suitable GPU!''), ?a)"
    using t [of "[?d0]"] by blast
  have e: "pickPhysicalDevice [] ?a =
     (Thrown (runtime_error ''Failed to find GPUs with Vulkan support!''), ?a)"
    using t [of "[]"] by simp
  let ?b = "Application_init (example_config\<lparr>features11 := [0, 1, 0]\<rparr>)"
  let ?es = "[example_device, capable_device]"
  have m: "physicalDevice ?b = None" by (simp add: Application_init_def)
  note v = pickPhysicalDevice_first_suitable [OF m]
  have x: "capable_device = example_device\<lparr>deviceFeatures11 := [1, 1, 0]\<rparr>"
    by (rule capable_device_def)
  have s2: "\<not> isDeviceSuitable ?b example_device"
    unfolding v [of "[]", THEN conjunct2, THEN conjunct2, THEN conjunct2, THEN spec,
                 of example_device]
      compareFeatures_base [symmetric] compareFeatures_flags [symmetric]
    by (simp add: Application_init_def example_config_def example_device_def
          VK_API_VERSION_1_0_def VK_API_VERSION_1_3_def)
  have s3: "isDeviceSuitable ?b capable_device"
    unfolding v [of "[]", THEN conjunct2, THEN conjunct2, THEN conjunct2, THEN spec,
                 of capable_device]
      compareFeatures_base [symmetric] compareFeatures_flags [symmetric]
    by (simp add: Application_init_def example_config_def example_device_def x
          VK_QUEUE_GRAPHICS_BIT_def VK_API_VERSION_1_0_def VK_API_VERSION_1_1_def
          VK_API_VERSION_1_2_def VK_API_VERSION_1_3_def)
  have "1 < length ?es \<and> isDeviceSuitable ?b (?es ! 1) \<and>
        (\<forall>j<1. \<not> isDeviceSuitable ?b (?es ! j))"
    using s2 s3 by simp
  then have q: "physicalDevice (snd (pickPhysicalDevice ?es ?b)) = Some (?es ! 1)"
    using v [of ?es] by blast
  show ?thesis using n s0 s1 p u e s2 q by simp
qed

text \<open>
  Claim C4, as stated, fails where the application targets Vulkan 1.0: the configuration
  requires flag 1 of the 1.1 tier, the device does not report it and its API version is
  below 1.1, and the device is suitable all the same. \<^verbatim>\<open>isDeviceSuitable\<close> tests
  \<^verbatim>\<open>config.vulkanVersion == VK_API_VERSION_1_0\<close> first and then compares the base
  features only.
\<close>

theorem isDeviceSuitable_ignores_tiers_when_configured_1_0:
  "vulkanVersion (config (Application_init legacy_config)) = VK_API_VERSION_1_0 \<and>
   features11 (config (Application_init legacy_config)) ! 1 \<noteq> 0 \<and>
   deviceFeatures11 old_device ! 1 = 0 \<and>
   apiVersion old_device < VK_API_VERSION_1_1 \<and>
   isDeviceSuitable (Application_init legacy_config) old_device"
  using example_device_base version_order
  by (simp add: isDeviceSuitable_iff Application_init_def legacy_config_def old_device_def
        example_config_def example_device_def)

text \<open>
  Claim C4, amended. A required base (1.0) flag that the device does not report makes
  the device unsuitable, whatever the configured version. When the configured version
  is not 1.0, a required flag of tier 1.1, 1.2 or 1.3 makes the device unsuitable if the
  device does not report it or if the device's API version is below the version of the
  tier, also when the device reports the flag. When the configured version is 1.0, the
  flags of tiers 1.1 to 1.3 have no influence on suitability.
\<close>

theorem isDeviceSuitable_feature_tiers:
  "(\<forall>i. i < length (features10 (config a)) \<and> i < length (deviceFeatures dev) \<and>
        features10 (config a) ! i \<noteq> 0 \<and> deviceFeatures dev ! i = 0 \<longrightarrow>
        \<not> isDeviceSuitable a dev) \<and>
   (vulkanVersion (config a) \<noteq> VK_API_VERSION_1_0 \<longrightarrow>
      (\<forall>i. i < length (features11 (config a)) \<and> i < length (deviceFeatures11 dev) \<and>
           features11 (config a) ! i \<noteq> 0 \<and>
           (deviceFeatures11 dev ! i = 0 \<or> apiVersion dev < VK_API_VERSION_1_1) \<longrightarrow>
           \<not> isDeviceSuitable a dev) \<and>
      (\<forall>i. i < length (features12 (config a)) \<and> i < length (deviceFeatures12 dev) \<and>
           features12 (config a) ! i \<noteq> 0 \<and>
           (deviceFeatures12 dev ! i = 0 \<or> apiVersion dev < VK_API_VERSION_1_2) \<longrightarrow>
           \<not> isDeviceSuitable a dev) \<and>
      (\<forall>i. i < length (features13 (config a)) \<and> i < length (deviceFeatures13 dev) \<and>
           features13 (config a) ! i \<noteq> 0 \<and>
           (deviceFeatures13 dev ! i = 0 \<or> apiVersion dev < VK_API_VERSION_1_3) \<longrightarrow>
           \<not> isDeviceSuitable a dev)) \<and>
   (vulkanVersion (config a) = VK_API_VERSION_1_0 \<longrightarrow>
      (\<forall>f11 f12 f13.
         isDeviceSuitable
           (a\<lparr>config := (config a)\<lparr>features11 := f11, features12 := f12, features13 := f13\<rparr>\<rparr>) dev =
         isDeviceSuitable a dev))"
proof -
  have t0: "\<forall>i. i < length (features10 (config a)) \<and> i < length (deviceFeatures dev) \<and>
        features10 (config a) ! i \<noteq> 0 \<and> deviceFeatures dev ! i = 0 \<longrightarrow>
        \<not> isDeviceSuitable a dev"
    using compareFeatures_rejects [of _ "features10 (config a)" "deviceFeatures dev" True]
    by (auto simp: isDeviceSuitable_iff)
  have t1: "vulkanVersion (config a) \<noteq> VK_API_VERSION_1_0 \<Longrightarrow>
      \<forall>i. i < length (features11 (config a)) \<and> i < length (deviceFeatures11 dev) \<and>
           features11 (config a) ! i \<noteq> 0 \<and>
           (deviceFeatures11 dev ! i = 0 \<or> apiVersion dev < VK_API_VERSION_1_1) \<longrightarrow>
           \<not> isDeviceSuitable a dev"
    using compareFeatures_rejects [of _ "features11 (config a)" "deviceFeatures11 dev"
            "VK_API_VERSION_1_1 \<le> apiVersion dev"]
    by (auto simp: isDeviceSuitable_iff not_le)
  have t2: "vulkanVersion (config a) \<noteq> VK_API_VERSION_1_0 \<Longrightarrow>
      \<forall>i. i < length (features12 (config a)) \<and> i < length (deviceFeatures12 dev) \<and>
           features12 (config a) ! i \<noteq> 0 \<and>
           (deviceFeatures12 dev ! i = 0 \<or> apiVersion dev < VK_API_VERSION_1_2) \<longrightarrow>
           \<not> isDeviceSuitable a dev"
    using compareFeatures_rejects [of _ "features12 (config a)" "deviceFeatures12 dev"
            "VK_API_VERSION_1_2 \<le> apiVersion dev"]
    by (auto simp: isDeviceSuitable_iff not_le)
  have t3: "vulkanVersion (config a) \<noteq> VK_API_VERSION_1_0 \<Longrightarrow>
      \<forall>i. i < length (features13 (config a)) \<and> i < length (deviceFeatures13 dev) \<and>
           features13 (config a) ! i \<noteq> 0 \<and>
           (deviceFeatures13 dev ! i = 0 \<or> apiVersion dev < VK_API_VERSION_1_3) \<longrightarrow>
           \<not> isDeviceSuitable a dev"
    using compareFeatures_rejects [of _ "features13 (config a)" "deviceFeatures13 dev"
            "VK_API_VERSION_1_3 \<le> apiVersion dev"]
    by (auto simp: isDeviceSuitable_iff not_le)
  have t4: "vulkanVersion (config a) = VK_API_VERSION_1_0 \<Longrightarrow>
      \<forall>f11 f12 f13.
         isDeviceSuitable
           (a\<lparr>config := (config a)\<lparr>features11 := f11, features12 := f12, features13 := f13\<rparr>\<rparr>) dev =
         isDeviceSuitable a dev"
    by (simp add: isDeviceSuitable_iff)
  show ?thesis using t0 t1 t2 t3 t4 by blast
qed

theorem isDeviceSuitable_feature_tiers_witness:
  "vulkanVersion (config (Application_init (example_config\<lparr>features11 := [1, 0, 0]\<rparr>))) \<noteq>
     VK_API_VERSION_1_0 \<and>
   features11 (config (Application_init (example_config\<lparr>features11 := [1, 0, 0]\<rparr>))) ! 0 \<noteq> 0 \<and>
   deviceFeatures11 old_device ! 0 \<noteq> 0 \<and>
   apiVersion old_device < VK_API_VERSION_1_1 \<and>
   \<not> isDeviceSuitable (Application_init (example_config\<lparr>features11 := [1, 0, 0]\<rparr>)) old_device"
proof -
  let ?a = "Application_init (example_config\<lparr>features11 := [1, 0, 0]\<rparr>)"
  have v: "vulkanVersion (config ?a) \<noteq> VK_API_VERSION_1_0"
    using version_order by (simp add: Application_init_def example_config_def)
  have r: "0 < length (features11 (config ?a))" "0 < length (deviceFeatures11 old_device)"
    "features11 (config ?a) ! 0 \<noteq> 0" "deviceFeatures11 old_device ! 0 \<noteq> 0"
    by (simp_all add: Application_init_def example_config_def old_device_def example_device_def)
  have o: "apiVersion old_device < VK_API_VERSION_1_1"
    using version_order by (simp add: old_device_def)
  have "\<not> isDeviceSuitable ?a old_device"
    using isDeviceSuitable_feature_tiers [of ?a old_device] v r o by blast
  then show ?thesis using v r o by blast
qed
end
